theory Spec2Isabelle
  imports Complex_Main
begin

section \<open>Data model (app/models.py)\<close>

text \<open>
  The account service keeps two Firestore collections, \<open>cuentas\<close> and \<open>movimientos\<close>.
  Amounts are rationals with exact arithmetic. The source computes them as Python
  \<open>float\<close>s, where every addition and subtraction is rounded, so that a regrouped sum
  need not equal the sum the code computed. The statements about balances are therefore
  phrased on the additions and subtractions that the code performs, one at a time and in
  the code's order; NaN and the infinities have no counterpart here. A Python \<open>str\<close> is a
  \<open>string\<close> whose characters stand for code points below 256, so the accented letters of
  the messages are single characters. Firestore document ids are natural numbers, and a
  \<open>datetime\<close> is a natural number read from the clock by the caller.
\<close>

type_synonym doc_id = nat
type_synonym datetime = nat

datatype TipoCuenta = AHORRO | CORRIENTE

datatype Moneda = BOB | USD

datatype EstadoCuenta = ACTIVA | BLOQUEADA | CERRADA

datatype TipoMovimiento =
  DEPOSITO | RETIRO | TRANSFERENCIA_ENTRADA | TRANSFERENCIA_SALIDA | PAGO_SERVICIO

record Cuenta =
  c_id :: "doc_id option"
  c_cliente_id :: string
  c_numero_cuenta :: string
  c_tipo :: TipoCuenta
  c_moneda :: Moneda
  c_saldo :: rat
  c_estado :: EstadoCuenta
  c_fecha_apertura :: datetime
  c_created_at :: datetime
  c_updated_at :: datetime

record Movimiento =
  m_id :: "doc_id option"
  m_cuenta_id :: doc_id
  m_tipo :: TipoMovimiento
  m_monto :: rat
  m_saldo_anterior :: rat
  m_saldo_nuevo :: rat
  m_descripcion :: string
  m_referencia :: "string option"
  m_fecha :: datetime
  m_created_at :: datetime

section \<open>Request and response schemas (app/schemas.py)\<close>

record CuentaCreate =
  cc_cliente_id :: string
  cc_tipo :: TipoCuenta
  cc_moneda :: Moneda
  cc_saldo_inicial :: rat

record CuentaUpdate =
  cu_tipo :: "TipoCuenta option"
  cu_estado :: "EstadoCuenta option"

record DepositoRequest =
  dep_monto :: rat
  dep_descripcion :: string

record RetiroRequest =
  ret_monto :: rat
  ret_descripcion :: string

record OperacionResponse =
  r_success :: bool
  r_mensaje :: string
  r_cuenta_id :: doc_id
  r_saldo_anterior :: rat
  r_saldo_nuevo :: rat
  r_monto :: rat
  r_movimiento_id :: "doc_id option"

text \<open>
  Errors. An \<open>HTTPException\<close> carries its status code and its detail; the detail of an
  f-string keeps each interpolated field as a value next to the literal text around it.
  \<open>ValidationError\<close> is what a pydantic validator raises, \<open>FirestoreNotFound\<close> what the
  store raises when a document to update does not exist.
\<close>

datatype piece =
  Txt string | IdP doc_id | EstadoP EstadoCuenta | SaldoP rat | MonedaP Moneda

datatype error =
  HTTPException nat "piece list"
| ValidationError string
| FirestoreNotFound

text \<open>
  Python's \<open>round(v, 2)\<close>: the nearest multiple of 0.01, a tie going to the even one.
\<close>

definition py_round2 :: "rat \<Rightarrow> rat" where
  "py_round2 v =
     (let x = v * 100; f = \<lfloor>x\<rfloor>; r = x - of_int f
      in of_int (if r < 1 / 2 then f
                 else if 1 / 2 < r then f + 1
                 else if even f then f else f + 1) / 100)"

text \<open>
  Building a request: the \<open>Field\<close> constraint and then the validator of each field, in
  the order of the fields. A failed check is the \<open>ValidationError\<close> that pydantic
  raises, and no request object exists then.
\<close>

definition make_CuentaCreate ::
  "string \<Rightarrow> TipoCuenta \<Rightarrow> Moneda \<Rightarrow> rat \<Rightarrow> error + CuentaCreate" where
  "make_CuentaCreate cliente tipo moneda saldo_inicial =
     (if \<not> 0 \<le> saldo_inicial then Inl (ValidationError ''ge=0'')
      else if saldo_inicial < 0
        then Inl (ValidationError ''El saldo inicial no puede ser negativo'')
      else Inr \<lparr>cc_cliente_id = cliente, cc_tipo = tipo, cc_moneda = moneda,
                cc_saldo_inicial = saldo_inicial\<rparr>)"

definition make_DepositoRequest :: "rat \<Rightarrow> string \<Rightarrow> error + DepositoRequest" where
  "make_DepositoRequest monto descripcion =
     (if \<not> 0 < monto then Inl (ValidationError ''gt=0'')
      else if monto \<le> 0 then Inl (ValidationError ''El monto debe ser mayor a 0'')
      else if 1000000 < monto
        then Inl (ValidationError (''El monto excede el l'' @ [CHR 0xED] @ ''mite permitido''))
      else if length descripcion < 1 then Inl (ValidationError ''min_length=1'')
      else if 255 < length descripcion then Inl (ValidationError ''max_length=255'')
      else Inr \<lparr>dep_monto = py_round2 monto, dep_descripcion = descripcion\<rparr>)"

definition make_RetiroRequest :: "rat \<Rightarrow> string \<Rightarrow> error + RetiroRequest" where
  "make_RetiroRequest monto descripcion =
     (if \<not> 0 < monto then Inl (ValidationError ''gt=0'')
      else if monto \<le> 0 then Inl (ValidationError ''El monto debe ser mayor a 0'')
      else if length descripcion < 1 then Inl (ValidationError ''min_length=1'')
      else if 255 < length descripcion then Inl (ValidationError ''max_length=255'')
      else Inr \<lparr>ret_monto = py_round2 monto, ret_descripcion = descripcion\<rparr>)"

section \<open>The repository (app/repos/cuentas_repo.py)\<close>

text \<open>
  The store: the documents of the two collections in insertion order, each under its
  document id and without an \<open>id\<close> field (\<open>model_dump(exclude={"id"})\<close>), and the tape
  of the random generator: the indices that \<open>random.choices\<close> will draw next.
\<close>

record db =
  cuentas :: "(doc_id \<times> Cuenta) list"
  movimientos :: "(doc_id \<times> Movimiento) list"
  rng :: "nat list"

fun max_id :: "(doc_id \<times> 'a) list \<Rightarrow> doc_id" where
  "max_id [] = 0"
| "max_id ((i, x) # xs) = max i (max_id xs)"

text \<open>
  \<open>collection.add(doc)\<close>: Firestore picks an id no document of the collection has;
  here the successor of the largest id in use.
\<close>

definition add :: "(doc_id \<times> 'a) list \<Rightarrow> 'a \<Rightarrow> doc_id \<times> (doc_id \<times> 'a) list" where
  "add docs doc = (let i = Suc (max_id docs) in (i, docs @ [(i, doc)]))"

definition string_digits :: string where
  "string_digits = ''0123456789''"

text \<open>
  \<open>random.choices(population, k)\<close> reads \<open>k\<close> entries from the tape; an entry \<open>r\<close>
  picks the element of the population at index \<open>r mod len(population)\<close>. A tape with
  fewer than \<open>k\<close> entries left gives \<open>None\<close>: the model has no more randomness to
  hand out.
\<close>

definition random_choices :: "'a list \<Rightarrow> nat \<Rightarrow> nat list \<Rightarrow> ('a list \<times> nat list) option" where
  "random_choices population k tape =
     (if length tape < k then None
      else Some (map (\<lambda>r. population ! (r mod length population)) (take k tape),
                 drop k tape))"

definition generar_numero_cuenta :: "db \<Rightarrow> (string \<times> db) option" where
  "generar_numero_cuenta d =
     (case random_choices string_digits 10 (rng d) of
        None \<Rightarrow> None
      | Some (numero, tape) \<Rightarrow> Some (numero, d\<lparr>rng := tape\<rparr>))"

definition cuenta_existe :: "db \<Rightarrow> string \<Rightarrow> bool" where
  "cuenta_existe d numero =
     (0 < length (take 1 (filter (\<lambda>(i, c). c_numero_cuenta c = numero) (cuentas d))))"

text \<open>
  The \<open>while True\<close> loop of \<open>_generar_numero_cuenta_unico\<close>. Each round uses ten entries
  of the tape; \<open>None\<close> says that the loop has not returned on the draws the tape holds.
\<close>

function generar_numero_cuenta_unico :: "db \<Rightarrow> (string \<times> db) option" where
  "generar_numero_cuenta_unico d =
     (case generar_numero_cuenta d of
        None \<Rightarrow> None
      | Some (numero, d') \<Rightarrow>
          if \<not> cuenta_existe d' numero then Some (numero, d')
          else generar_numero_cuenta_unico d')"
  by pat_completeness auto
termination
  by (relation "measure (\<lambda>d. length (rng d))")
     (auto simp: generar_numero_cuenta_def random_choices_def split: if_splits)

declare generar_numero_cuenta_unico.simps [simp del]

definition create :: "db \<Rightarrow> datetime \<Rightarrow> Cuenta \<Rightarrow> (doc_id \<times> db) option" where
  "create d now cuenta =
     (case generar_numero_cuenta_unico d of
        None \<Rightarrow> None
      | Some (numero, d1) \<Rightarrow>
          let cuenta1 = cuenta\<lparr>c_numero_cuenta := numero, c_created_at := now,
                               c_updated_at := now\<rparr>;
              cuenta_dict = cuenta1\<lparr>c_id := None\<rparr>;
              (new_id, docs) = add (cuentas d1) cuenta_dict
          in Some (new_id, d1\<lparr>cuentas := docs\<rparr>))"

definition get_by_id :: "db \<Rightarrow> doc_id \<Rightarrow> Cuenta option" where
  "get_by_id d cuenta_id =
     (case map_of (cuentas d) cuenta_id of
        None \<Rightarrow> None
      | Some data \<Rightarrow> Some (data\<lparr>c_id := Some cuenta_id\<rparr>))"

text \<open>
  The dictionary handed to \<open>update\<close>: the keys the service ever passes, an absent key
  being \<open>None\<close>.
\<close>

record update_data =
  u_saldo :: "rat option"
  u_estado :: "EstadoCuenta option"
  u_tipo :: "TipoCuenta option"
  u_updated_at :: "datetime option"

definition empty_update :: update_data where
  "empty_update = \<lparr>u_saldo = None, u_estado = None, u_tipo = None, u_updated_at = None\<rparr>"

definition apply_update :: "update_data \<Rightarrow> Cuenta \<Rightarrow> Cuenta" where
  "apply_update upd c =
     c\<lparr>c_saldo := (case u_saldo upd of None \<Rightarrow> c_saldo c | Some v \<Rightarrow> v),
       c_estado := (case u_estado upd of None \<Rightarrow> c_estado c | Some v \<Rightarrow> v),
       c_tipo := (case u_tipo upd of None \<Rightarrow> c_tipo c | Some v \<Rightarrow> v),
       c_updated_at := (case u_updated_at upd of None \<Rightarrow> c_updated_at c | Some v \<Rightarrow> v)\<rparr>"

text \<open>
  \<open>doc_ref.update(fields)\<close> overwrites the named fields of an existing document and
  raises when there is no such document. Whenever the call comes back, \<open>update\<close>
  returns \<open>True\<close>.
\<close>

definition update :: "db \<Rightarrow> datetime \<Rightarrow> doc_id \<Rightarrow> update_data \<Rightarrow> error + (bool \<times> db)" where
  "update d now cuenta_id upd =
     (let upd1 = upd\<lparr>u_updated_at := Some now\<rparr>
      in case map_of (cuentas d) cuenta_id of
           None \<Rightarrow> Inl FirestoreNotFound
         | Some _ \<Rightarrow>
             Inr (True,
                  d\<lparr>cuentas := map (\<lambda>(i, c). if i = cuenta_id then (i, apply_update upd1 c)
                                              else (i, c)) (cuentas d)\<rparr>))"

definition update_saldo :: "db \<Rightarrow> datetime \<Rightarrow> doc_id \<Rightarrow> rat \<Rightarrow> error + (bool \<times> db)" where
  "update_saldo d now cuenta_id nuevo_saldo =
     update d now cuenta_id (empty_update\<lparr>u_saldo := Some nuevo_saldo\<rparr>)"

definition cambiar_estado ::
  "db \<Rightarrow> datetime \<Rightarrow> doc_id \<Rightarrow> EstadoCuenta \<Rightarrow> error + (bool \<times> db)" where
  "cambiar_estado d now cuenta_id nuevo_estado =
     update d now cuenta_id (empty_update\<lparr>u_estado := Some nuevo_estado\<rparr>)"

definition delete :: "db \<Rightarrow> datetime \<Rightarrow> doc_id \<Rightarrow> error + (bool \<times> db)" where
  "delete d now cuenta_id = cambiar_estado d now cuenta_id CERRADA"

definition crear_movimiento :: "db \<Rightarrow> datetime \<Rightarrow> Movimiento \<Rightarrow> doc_id \<times> db" where
  "crear_movimiento d now movimiento =
     (let movimiento1 = movimiento\<lparr>m_created_at := now\<rparr>;
          movimiento_dict = movimiento1\<lparr>m_id := None\<rparr>;
          (new_id, docs) = add (movimientos d) movimiento_dict
      in (new_id, d\<lparr>movimientos := docs\<rparr>))"

section \<open>The service (app/services/cuentas_service.py)\<close>

text \<open>
  Every operation takes the store and the reading of the clock and returns its result
  with the store it leaves behind. The source calls \<open>datetime.now()\<close> several times
  within one operation; the model uses the one reading \<open>now\<close> for all of them. An
  exception is the \<open>Inl\<close> of the result; the store next to it is the store at the
  moment of the raise.
\<close>

definition desc_apertura :: string where
  "desc_apertura = ''Dep'' @ [CHR 0xF3] @ ''sito inicial - Apertura de cuenta''"

text \<open>
  \<open>crear_cuenta\<close> returns what \<open>get_by_id\<close> gives for the new id; the outer \<open>None\<close> is
  the number generation that has not returned.
\<close>

definition crear_cuenta :: "db \<Rightarrow> datetime \<Rightarrow> CuentaCreate \<Rightarrow> (Cuenta option \<times> db) option" where
  "crear_cuenta d now cuenta_data =
     (let nueva_cuenta = \<lparr>c_id = None, c_cliente_id = cc_cliente_id cuenta_data,
                           c_numero_cuenta = [], c_tipo = cc_tipo cuenta_data,
                           c_moneda = cc_moneda cuenta_data,
                           c_saldo = cc_saldo_inicial cuenta_data, c_estado = ACTIVA,
                           c_fecha_apertura = now, c_created_at = now,
                           c_updated_at = now\<rparr>
      in case create d now nueva_cuenta of
           None \<Rightarrow> None
         | Some (cuenta_id, d1) \<Rightarrow>
             let cuenta_creada = get_by_id d1 cuenta_id
             in if 0 < cc_saldo_inicial cuenta_data
                then let movimiento = \<lparr>m_id = None, m_cuenta_id = cuenta_id,
                                         m_tipo = DEPOSITO,
                                         m_monto = cc_saldo_inicial cuenta_data,
                                         m_saldo_anterior = 0,
                                         m_saldo_nuevo = cc_saldo_inicial cuenta_data,
                                         m_descripcion = desc_apertura,
                                         m_referencia = None, m_fecha = now,
                                         m_created_at = now\<rparr>;
                         (movimiento_id, d2) = crear_movimiento d1 now movimiento
                     in Some (cuenta_creada, d2)
                else Some (cuenta_creada, d1))"

definition obtener_cuenta :: "db \<Rightarrow> doc_id \<Rightarrow> error + Cuenta" where
  "obtener_cuenta d cuenta_id =
     (case get_by_id d cuenta_id of
        None \<Rightarrow> Inl (HTTPException 404
                        [Txt ''Cuenta con ID '', IdP cuenta_id, Txt '' no encontrada''])
      | Some cuenta \<Rightarrow> Inr cuenta)"

text \<open>
  \<open>update_data.model_dump(exclude_unset=True)\<close>: the fields the request sets. The
  dictionary is empty exactly when neither is set. A \<open>CuentaUpdate\<close> here gives each
  field a value or leaves it unset; a request that sets a field to an explicit null,
  which the source would write into the document as it is, has no counterpart.
\<close>

definition model_dump :: "CuentaUpdate \<Rightarrow> update_data" where
  "model_dump update_req = empty_update\<lparr>u_tipo := cu_tipo update_req,
                                          u_estado := cu_estado update_req\<rparr>"

definition actualizar_cuenta ::
  "db \<Rightarrow> datetime \<Rightarrow> doc_id \<Rightarrow> CuentaUpdate \<Rightarrow> (error + Cuenta option) \<times> db" where
  "actualizar_cuenta d now cuenta_id update_req =
     (case obtener_cuenta d cuenta_id of
        Inl e \<Rightarrow> (Inl e, d)
      | Inr cuenta \<Rightarrow>
          let update_dict = model_dump update_req
          in if update_dict \<noteq> empty_update
             then (case update d now cuenta_id update_dict of
                     Inl e \<Rightarrow> (Inl e, d)
                   | Inr (ok, d1) \<Rightarrow> (Inr (get_by_id d1 cuenta_id), d1))
             else (Inr (get_by_id d cuenta_id), d))"

definition msg_deposito :: string where
  "msg_deposito = ''Dep'' @ [CHR 0xF3] @ ''sito realizado exitosamente''"

definition depositar ::
  "db \<Rightarrow> datetime \<Rightarrow> doc_id \<Rightarrow> DepositoRequest \<Rightarrow> (error + OperacionResponse) \<times> db" where
  "depositar d now cuenta_id deposito =
     (case obtener_cuenta d cuenta_id of
        Inl e \<Rightarrow> (Inl e, d)
      | Inr cuenta \<Rightarrow>
          if c_estado cuenta \<noteq> ACTIVA
          then (Inl (HTTPException 400
                  [Txt (''La cuenta est'' @ [CHR 0xE1] @ '' ''), EstadoP (c_estado cuenta),
                   Txt (''. No se pueden realizar dep'' @ [CHR 0xF3] @ ''sitos.'')]), d)
          else
            let saldo_anterior = c_saldo cuenta;
                saldo_nuevo = saldo_anterior + dep_monto deposito
            in (case update_saldo d now cuenta_id saldo_nuevo of
                 Inl e \<Rightarrow> (Inl e, d)
               | Inr (ok, d1) \<Rightarrow>
                   let movimiento = \<lparr>m_id = None, m_cuenta_id = cuenta_id,
                                      m_tipo = DEPOSITO, m_monto = dep_monto deposito,
                                      m_saldo_anterior = saldo_anterior,
                                      m_saldo_nuevo = saldo_nuevo,
                                      m_descripcion = dep_descripcion deposito,
                                      m_referencia = None, m_fecha = now,
                                      m_created_at = now\<rparr>;
                       (movimiento_id, d2) = crear_movimiento d1 now movimiento
                   in (Inr \<lparr>r_success = True, r_mensaje = msg_deposito,
                             r_cuenta_id = cuenta_id, r_saldo_anterior = saldo_anterior,
                             r_saldo_nuevo = saldo_nuevo, r_monto = dep_monto deposito,
                             r_movimiento_id = Some movimiento_id\<rparr>, d2)))"

definition retirar ::
  "db \<Rightarrow> datetime \<Rightarrow> doc_id \<Rightarrow> RetiroRequest \<Rightarrow> (error + OperacionResponse) \<times> db" where
  "retirar d now cuenta_id retiro =
     (case obtener_cuenta d cuenta_id of
        Inl e \<Rightarrow> (Inl e, d)
      | Inr cuenta \<Rightarrow>
          if c_estado cuenta \<noteq> ACTIVA
          then (Inl (HTTPException 400
                  [Txt (''La cuenta est'' @ [CHR 0xE1] @ '' ''), EstadoP (c_estado cuenta),
                   Txt ''. No se pueden realizar retiros.'']), d)
          else if c_saldo cuenta < ret_monto retiro
          then (Inl (HTTPException 400
                  [Txt ''Saldo insuficiente. Saldo disponible: '', SaldoP (c_saldo cuenta),
                   Txt '' '', MonedaP (c_moneda cuenta)]), d)
          else
            let saldo_anterior = c_saldo cuenta;
                saldo_nuevo = saldo_anterior - ret_monto retiro
            in (case update_saldo d now cuenta_id saldo_nuevo of
                 Inl e \<Rightarrow> (Inl e, d)
               | Inr (ok, d1) \<Rightarrow>
                   let movimiento = \<lparr>m_id = None, m_cuenta_id = cuenta_id,
                                      m_tipo = RETIRO, m_monto = ret_monto retiro,
                                      m_saldo_anterior = saldo_anterior,
                                      m_saldo_nuevo = saldo_nuevo,
                                      m_descripcion = ret_descripcion retiro,
                                      m_referencia = None, m_fecha = now,
                                      m_created_at = now\<rparr>;
                       (movimiento_id, d2) = crear_movimiento d1 now movimiento
                   in (Inr \<lparr>r_success = True,
                             r_mensaje = ''Retiro realizado exitosamente'',
                             r_cuenta_id = cuenta_id, r_saldo_anterior = saldo_anterior,
                             r_saldo_nuevo = saldo_nuevo, r_monto = ret_monto retiro,
                             r_movimiento_id = Some movimiento_id\<rparr>, d2)))"

definition bloquear_cuenta ::
  "db \<Rightarrow> datetime \<Rightarrow> doc_id \<Rightarrow> (error + Cuenta option) \<times> db" where
  "bloquear_cuenta d now cuenta_id =
     (case obtener_cuenta d cuenta_id of
        Inl e \<Rightarrow> (Inl e, d)
      | Inr cuenta \<Rightarrow>
          if c_estado cuenta = BLOQUEADA
          then (Inl (HTTPException 400
                  [Txt (''La cuenta ya est'' @ [CHR 0xE1] @ '' bloqueada'')]), d)
          else (case cambiar_estado d now cuenta_id BLOQUEADA of
                 Inl e \<Rightarrow> (Inl e, d)
               | Inr (ok, d1) \<Rightarrow> (Inr (get_by_id d1 cuenta_id), d1)))"

definition desbloquear_cuenta ::
  "db \<Rightarrow> datetime \<Rightarrow> doc_id \<Rightarrow> (error + Cuenta option) \<times> db" where
  "desbloquear_cuenta d now cuenta_id =
     (case obtener_cuenta d cuenta_id of
        Inl e \<Rightarrow> (Inl e, d)
      | Inr cuenta \<Rightarrow>
          if c_estado cuenta \<noteq> BLOQUEADA
          then (Inl (HTTPException 400
                  [Txt (''La cuenta no est'' @ [CHR 0xE1] @ '' bloqueada'')]), d)
          else (case cambiar_estado d now cuenta_id ACTIVA of
                 Inl e \<Rightarrow> (Inl e, d)
               | Inr (ok, d1) \<Rightarrow> (Inr (get_by_id d1 cuenta_id), d1)))"

definition validar_saldo_disponible :: "db \<Rightarrow> doc_id \<Rightarrow> rat \<Rightarrow> (error + bool) \<times> db" where
  "validar_saldo_disponible d cuenta_id monto =
     (case obtener_cuenta d cuenta_id of
        Inl e \<Rightarrow> (Inl e, d)
      | Inr cuenta \<Rightarrow>
          if c_estado cuenta \<noteq> ACTIVA then (Inr False, d)
          else (Inr (monto \<le> c_saldo cuenta), d))"

definition descontar_saldo ::
  "db \<Rightarrow> datetime \<Rightarrow> doc_id \<Rightarrow> rat \<Rightarrow> string \<Rightarrow> TipoMovimiento
     \<Rightarrow> (error + OperacionResponse) \<times> db" where
  "descontar_saldo d now cuenta_id monto descripcion tipo_movimiento =
     (case obtener_cuenta d cuenta_id of
        Inl e \<Rightarrow> (Inl e, d)
      | Inr cuenta \<Rightarrow>
          if c_estado cuenta \<noteq> ACTIVA
          then (Inl (HTTPException 400
                  [Txt (''La cuenta no est'' @ [CHR 0xE1] @ '' activa'')]), d)
          else if c_saldo cuenta < monto
          then (Inl (HTTPException 400 [Txt ''Saldo insuficiente'']), d)
          else
            let saldo_anterior = c_saldo cuenta;
                saldo_nuevo = saldo_anterior - monto
            in (case update_saldo d now cuenta_id saldo_nuevo of
                 Inl e \<Rightarrow> (Inl e, d)
               | Inr (ok, d1) \<Rightarrow>
                   let movimiento = \<lparr>m_id = None, m_cuenta_id = cuenta_id,
                                      m_tipo = tipo_movimiento, m_monto = monto,
                                      m_saldo_anterior = saldo_anterior,
                                      m_saldo_nuevo = saldo_nuevo,
                                      m_descripcion = descripcion,
                                      m_referencia = None, m_fecha = now,
                                      m_created_at = now\<rparr>;
                       (movimiento_id, d2) = crear_movimiento d1 now movimiento
                   in (Inr \<lparr>r_success = True,
                             r_mensaje = ''Descuento realizado exitosamente'',
                             r_cuenta_id = cuenta_id, r_saldo_anterior = saldo_anterior,
                             r_saldo_nuevo = saldo_nuevo, r_monto = monto,
                             r_movimiento_id = Some movimiento_id\<rparr>, d2)))"

definition msg_acreditacion :: string where
  "msg_acreditacion = ''Acreditaci'' @ [CHR 0xF3] @ ''n realizada exitosamente''"

definition acreditar_saldo ::
  "db \<Rightarrow> datetime \<Rightarrow> doc_id \<Rightarrow> rat \<Rightarrow> string \<Rightarrow> TipoMovimiento
     \<Rightarrow> (error + OperacionResponse) \<times> db" where
  "acreditar_saldo d now cuenta_id monto descripcion tipo_movimiento =
     (case obtener_cuenta d cuenta_id of
        Inl e \<Rightarrow> (Inl e, d)
      | Inr cuenta \<Rightarrow>
          if c_estado cuenta \<noteq> ACTIVA
          then (Inl (HTTPException 400
                  [Txt (''La cuenta no est'' @ [CHR 0xE1] @ '' activa'')]), d)
          else
            let saldo_anterior = c_saldo cuenta;
                saldo_nuevo = saldo_anterior + monto
            in (case update_saldo d now cuenta_id saldo_nuevo of
                 Inl e \<Rightarrow> (Inl e, d)
               | Inr (ok, d1) \<Rightarrow>
                   let movimiento = \<lparr>m_id = None, m_cuenta_id = cuenta_id,
                                      m_tipo = tipo_movimiento, m_monto = monto,
                                      m_saldo_anterior = saldo_anterior,
                                      m_saldo_nuevo = saldo_nuevo,
                                      m_descripcion = descripcion,
                                      m_referencia = None, m_fecha = now,
                                      m_created_at = now\<rparr>;
                       (movimiento_id, d2) = crear_movimiento d1 now movimiento
                   in (Inr \<lparr>r_success = True, r_mensaje = msg_acreditacion,
                             r_cuenta_id = cuenta_id, r_saldo_anterior = saldo_anterior,
                             r_saldo_nuevo = saldo_nuevo, r_monto = monto,
                             r_movimiento_id = Some movimiento_id\<rparr>, d2)))"

section \<open>Vocabulary of the properties\<close>

text \<open>
  The sign convention of the movement kinds: deposits and incoming transfers add to the
  balance, withdrawals, outgoing transfers and service payments take from it.
  \<open>movimiento_cuadra\<close> and \<open>suma_movimientos\<close> are the difference and the sum that the
  specification speaks of.
\<close>

definition es_entrada :: "TipoMovimiento \<Rightarrow> bool" where
  "es_entrada t = (t = DEPOSITO \<or> t = TRANSFERENCIA_ENTRADA)"

definition monto_con_signo :: "Movimiento \<Rightarrow> rat" where
  "monto_con_signo m = (if es_entrada (m_tipo m) then m_monto m else - m_monto m)"

definition movimiento_cuadra :: "Movimiento \<Rightarrow> bool" where
  "movimiento_cuadra m = (m_saldo_nuevo m - m_saldo_anterior m = monto_con_signo m)"

definition suma_movimientos :: "doc_id \<Rightarrow> (doc_id \<times> Movimiento) list \<Rightarrow> rat" where
  "suma_movimientos cid ms =
     sum_list (map (\<lambda>(i, m). monto_con_signo m) (filter (\<lambda>(i, m). m_cuenta_id m = cid) ms))"

text \<open>
  A movement applied to a balance: its amount is added when the kind is of the incoming
  group and subtracted otherwise. A movement is settled when its \<open>saldo_nuevo\<close> is its
  \<open>saldo_anterior\<close> with the movement applied.
\<close>

definition aplicar_movimiento :: "rat \<Rightarrow> Movimiento \<Rightarrow> rat" where
  "aplicar_movimiento b m = (if es_entrada (m_tipo m) then b + m_monto m else b - m_monto m)"

definition movimiento_asentado :: "Movimiento \<Rightarrow> bool" where
  "movimiento_asentado m = (m_saldo_nuevo m = aplicar_movimiento (m_saldo_anterior m) m)"

text \<open>The movements of one account among a list of movement documents, in their order.\<close>

definition movimientos_de :: "doc_id \<Rightarrow> (doc_id \<times> Movimiento) list \<Rightarrow> Movimiento list" where
  "movimientos_de cid ms = map snd (filter (\<lambda>(i, m). m_cuenta_id m = cid) ms)"

text \<open>The movement documents that a run from store \<open>d\<close> to store \<open>d'\<close> has added.\<close>

definition creados :: "db \<Rightarrow> db \<Rightarrow> (doc_id \<times> Movimiento) list" where
  "creados d d' = drop (length (movimientos d)) (movimientos d')"

definition saldo_de :: "db \<Rightarrow> doc_id \<Rightarrow> rat option" where
  "saldo_de d cid = map_option c_saldo (get_by_id d cid)"

definition estado_de :: "db \<Rightarrow> doc_id \<Rightarrow> EstadoCuenta option" where
  "estado_de d cid = map_option c_estado (get_by_id d cid)"

definition numeros :: "db \<Rightarrow> string list" where
  "numeros d = map (\<lambda>(i, c). c_numero_cuenta c) (cuentas d)"

definition dos_decimales :: "rat \<Rightarrow> bool" where
  "dos_decimales x = (of_int \<lfloor>x * 100\<rfloor> = x * 100)"

text \<open>The \<open>k\<close>-th number the generator draws from a tape, counting from 0.\<close>

definition sorteo :: "nat list \<Rightarrow> nat \<Rightarrow> string" where
  "sorteo tape k =
     map (\<lambda>r. string_digits ! (r mod length string_digits)) (take 10 (drop (10 * k) tape))"

text \<open>
  The four balance operations as values, so that a sequence of calls can be run: the
  run goes on while the calls succeed and is \<open>None\<close> as soon as one raises.
\<close>

datatype operacion =
  Depositar doc_id DepositoRequest
| Retirar doc_id RetiroRequest
| Descontar doc_id rat string TipoMovimiento
| Acreditar doc_id rat string TipoMovimiento

fun ejecutar :: "db \<Rightarrow> datetime \<Rightarrow> operacion \<Rightarrow> (error + OperacionResponse) \<times> db" where
  "ejecutar d now (Depositar cid deposito) = depositar d now cid deposito"
| "ejecutar d now (Retirar cid retiro) = retirar d now cid retiro"
| "ejecutar d now (Descontar cid monto descripcion tipo) =
     descontar_saldo d now cid monto descripcion tipo"
| "ejecutar d now (Acreditar cid monto descripcion tipo) =
     acreditar_saldo d now cid monto descripcion tipo"

fun ejecutar_todas :: "db \<Rightarrow> (datetime \<times> operacion) list \<Rightarrow> db option" where
  "ejecutar_todas d [] = Some d"
| "ejecutar_todas d ((now, op) # ops) =
     (case ejecutar d now op of
        (Inl e, d1) \<Rightarrow> None
      | (Inr r, d1) \<Rightarrow> ejecutar_todas d1 ops)"

text \<open>
  A debit or credit whose movement kind has the direction of the operation itself.
\<close>

fun tipo_acorde :: "operacion \<Rightarrow> bool" where
  "tipo_acorde (Depositar cid deposito) = True"
| "tipo_acorde (Retirar cid retiro) = True"
| "tipo_acorde (Descontar cid monto descripcion tipo) = (\<not> es_entrada tipo)"
| "tipo_acorde (Acreditar cid monto descripcion tipo) = es_entrada tipo"

fun crear_cuentas :: "db \<Rightarrow> (datetime \<times> CuentaCreate) list \<Rightarrow> db option" where
  "crear_cuentas d [] = Some d"
| "crear_cuentas d ((now, cuenta_data) # rest) =
     (case crear_cuenta d now cuenta_data of
        None \<Rightarrow> None
      | Some (cuenta, d1) \<Rightarrow> crear_cuentas d1 rest)"

text \<open>A store with one account, used to run the operations on concrete inputs.\<close>

definition demo_cuenta :: Cuenta where
  "demo_cuenta =
     \<lparr>c_id = None, c_cliente_id = ''cliente-1'', c_numero_cuenta = ''0123456789'',
      c_tipo = AHORRO, c_moneda = BOB, c_saldo = 100, c_estado = ACTIVA,
      c_fecha_apertura = 0, c_created_at = 0, c_updated_at = 0\<rparr>"

definition demo_db :: db where
  "demo_db = \<lparr>cuentas = [(1, demo_cuenta)], movimientos = [], rng = []\<rparr>"

definition demo_cerrada :: db where
  "demo_cerrada =
     \<lparr>cuentas = [(1, demo_cuenta\<lparr>c_estado := CERRADA\<rparr>)], movimientos = [], rng = []\<rparr>"

text \<open>
  The store that a balance operation leaves behind: the account's \<open>saldo\<close> and
  \<open>updated_at\<close> overwritten, and one movement document added at the end.
\<close>

definition asentado :: "db \<Rightarrow> datetime \<Rightarrow> doc_id \<Rightarrow> rat \<Rightarrow> Movimiento \<Rightarrow> db" where
  "asentado d now cid saldo_nuevo mov =
     d\<lparr>cuentas := map (\<lambda>(i, c). if i = cid
                          then (i, c\<lparr>c_saldo := saldo_nuevo, c_updated_at := now\<rparr>)
                          else (i, c)) (cuentas d),
       movimientos := movimientos d @
         [(Suc (max_id (movimientos d)), mov\<lparr>m_created_at := now, m_id := None\<rparr>)]\<rparr>"

text \<open>Whether an operation adds to the balance (deposit, credit) or takes from it.\<close>

fun es_abono :: "operacion \<Rightarrow> bool" where
  "es_abono (Depositar cid deposito) = True"
| "es_abono (Retirar cid retiro) = False"
| "es_abono (Descontar cid monto descripcion tipo) = False"
| "es_abono (Acreditar cid monto descripcion tipo) = True"

definition demo_ops :: "(datetime \<times> operacion) list" where
  "demo_ops =
     [(1, Depositar 1 \<lparr>dep_monto = 50, dep_descripcion = ''ventanilla''\<rparr>),
      (2, Retirar 1 \<lparr>ret_monto = 30, ret_descripcion = ''cajero''\<rparr>),
      (3, Acreditar 1 20 ''transferencia recibida'' TRANSFERENCIA_ENTRADA),
      (4, Descontar 1 15 ''pago de luz'' PAGO_SERVICIO)]"

text \<open>
  The same store with a tape of twenty draws: the first ten spell the number the stored
  account already has, the next ten a new one.
\<close>

definition demo_sorteo :: db where
  "demo_sorteo = demo_db\<lparr>rng := [0, 1, 2, 3, 4, 5, 6, 7, 8, 9, 9, 8, 7, 6, 5, 4, 3, 2, 1, 0]\<rparr>"

definition demo_apertura :: CuentaCreate where
  "demo_apertura =
     \<lparr>cc_cliente_id = ''cliente-2'', cc_tipo = CORRIENTE, cc_moneda = USD,
      cc_saldo_inicial = 100\<rparr>"

section \<open>Facts about the store\<close>

lemma map_of_update_docs:
  "map_of (map (\<lambda>(i, c). if i = k then (i, f c) else (i, c)) xs) j =
     (if j = k then map_option f (map_of xs j) else map_of xs j)"
  by (induction xs) auto

lemma update_existing:
  "map_of (cuentas d) cid = Some c0 \<Longrightarrow>
   update d now cid upd =
     Inr (True, d\<lparr>cuentas := map (\<lambda>(i, c). if i = cid
            then (i, apply_update (upd\<lparr>u_updated_at := Some now\<rparr>) c) else (i, c)) (cuentas d)\<rparr>)"
  by (simp add: update_def)

lemma update_missing:
  "map_of (cuentas d) cid = None \<Longrightarrow> update d now cid upd = Inl FirestoreNotFound"
  by (simp add: update_def)

lemma get_by_id_Some:
  "get_by_id d cid = Some c \<Longrightarrow>
   \<exists>c0. map_of (cuentas d) cid = Some c0 \<and> c = c0\<lparr>c_id := Some cid\<rparr>"
  by (auto simp: get_by_id_def split: option.splits)

lemma apply_update_saldo:
  "apply_update (empty_update\<lparr>u_saldo := Some s, u_updated_at := Some now\<rparr>) c =
     c\<lparr>c_saldo := s, c_updated_at := now\<rparr>"
  by (simp add: apply_update_def empty_update_def)

lemma apply_update_estado:
  "apply_update (empty_update\<lparr>u_estado := Some e, u_updated_at := Some now\<rparr>) c =
     c\<lparr>c_estado := e, c_updated_at := now\<rparr>"
  by (simp add: apply_update_def empty_update_def)

lemma update_saldo_existing:
  assumes "get_by_id d cid = Some c"
  shows "update_saldo d now cid s =
           Inr (True, d\<lparr>cuentas := map (\<lambda>(i, c). if i = cid
                  then (i, c\<lparr>c_saldo := s, c_updated_at := now\<rparr>) else (i, c)) (cuentas d)\<rparr>)"
proof -
  from assms obtain c0 where "map_of (cuentas d) cid = Some c0"
    by (auto dest: get_by_id_Some)
  then show ?thesis
    by (simp add: update_saldo_def update_existing apply_update_saldo cong: if_cong)
qed

lemma cambiar_estado_existing:
  assumes "get_by_id d cid = Some c"
  shows "cambiar_estado d now cid e =
           Inr (True, d\<lparr>cuentas := map (\<lambda>(i, c). if i = cid
                  then (i, c\<lparr>c_estado := e, c_updated_at := now\<rparr>) else (i, c)) (cuentas d)\<rparr>)"
proof -
  from assms obtain c0 where "map_of (cuentas d) cid = Some c0"
    by (auto dest: get_by_id_Some)
  then show ?thesis
    by (simp add: cambiar_estado_def update_existing apply_update_estado cong: if_cong)
qed

lemma crear_movimiento_eq:
  "crear_movimiento d now mov =
     (Suc (max_id (movimientos d)),
      d\<lparr>movimientos := movimientos d @
           [(Suc (max_id (movimientos d)), mov\<lparr>m_created_at := now, m_id := None\<rparr>)]\<rparr>)"
  by (simp add: crear_movimiento_def add_def Let_def)

lemma get_by_id_asentado:
  "get_by_id (asentado d now cid s mov) j =
     (if j = cid then map_option (\<lambda>c. c\<lparr>c_saldo := s, c_updated_at := now\<rparr>) (get_by_id d j)
      else get_by_id d j)"
  by (simp add: get_by_id_def asentado_def map_of_update_docs split: option.splits)

lemma movimientos_asentado:
  "movimientos (asentado d now cid s mov) =
     movimientos d @ [(Suc (max_id (movimientos d)), mov\<lparr>m_created_at := now, m_id := None\<rparr>)]"
  by (simp add: asentado_def)

lemma retirar_ok:
  assumes "get_by_id d cid = Some c" "c_estado c = ACTIVA" "ret_monto r \<le> c_saldo c"
  shows "retirar d now cid r =
    (Inr \<lparr>r_success = True, r_mensaje = ''Retiro realizado exitosamente'',
          r_cuenta_id = cid, r_saldo_anterior = c_saldo c,
          r_saldo_nuevo = c_saldo c - ret_monto r, r_monto = ret_monto r,
          r_movimiento_id = Some (Suc (max_id (movimientos d)))\<rparr>,
     asentado d now cid (c_saldo c - ret_monto r)
       \<lparr>m_id = None, m_cuenta_id = cid, m_tipo = RETIRO, m_monto = ret_monto r,
        m_saldo_anterior = c_saldo c, m_saldo_nuevo = c_saldo c - ret_monto r,
        m_descripcion = ret_descripcion r, m_referencia = None, m_fecha = now,
        m_created_at = now\<rparr>)"
  using assms
  by (simp add: retirar_def obtener_cuenta_def Let_def update_saldo_existing [OF assms(1)]
        crear_movimiento_eq asentado_def)


lemma depositar_ok:
  assumes "get_by_id d cid = Some c" "c_estado c = ACTIVA"
  shows "depositar d now cid r =
    (Inr \<lparr>r_success = True, r_mensaje = msg_deposito,
          r_cuenta_id = cid, r_saldo_anterior = c_saldo c,
          r_saldo_nuevo = c_saldo c + dep_monto r, r_monto = dep_monto r,
          r_movimiento_id = Some (Suc (max_id (movimientos d)))\<rparr>,
     asentado d now cid (c_saldo c + dep_monto r)
       \<lparr>m_id = None, m_cuenta_id = cid, m_tipo = DEPOSITO, m_monto = dep_monto r,
        m_saldo_anterior = c_saldo c, m_saldo_nuevo = c_saldo c + dep_monto r,
        m_descripcion = dep_descripcion r, m_referencia = None, m_fecha = now,
        m_created_at = now\<rparr>)"
  using assms
  by (simp add: depositar_def obtener_cuenta_def Let_def update_saldo_existing [OF assms(1)]
        crear_movimiento_eq asentado_def)

lemma descontar_saldo_ok:
  assumes "get_by_id d cid = Some c" "c_estado c = ACTIVA" "monto \<le> c_saldo c"
  shows "descontar_saldo d now cid monto descripcion tipo =
    (Inr \<lparr>r_success = True, r_mensaje = ''Descuento realizado exitosamente'',
          r_cuenta_id = cid, r_saldo_anterior = c_saldo c,
          r_saldo_nuevo = c_saldo c - monto, r_monto = monto,
          r_movimiento_id = Some (Suc (max_id (movimientos d)))\<rparr>,
     asentado d now cid (c_saldo c - monto)
       \<lparr>m_id = None, m_cuenta_id = cid, m_tipo = tipo, m_monto = monto,
        m_saldo_anterior = c_saldo c, m_saldo_nuevo = c_saldo c - monto,
        m_descripcion = descripcion, m_referencia = None, m_fecha = now,
        m_created_at = now\<rparr>)"
  using assms
  by (simp add: descontar_saldo_def obtener_cuenta_def Let_def
        update_saldo_existing [OF assms(1)] crear_movimiento_eq asentado_def)

lemma acreditar_saldo_ok:
  assumes "get_by_id d cid = Some c" "c_estado c = ACTIVA"
  shows "acreditar_saldo d now cid monto descripcion tipo =
    (Inr \<lparr>r_success = True, r_mensaje = msg_acreditacion,
          r_cuenta_id = cid, r_saldo_anterior = c_saldo c,
          r_saldo_nuevo = c_saldo c + monto, r_monto = monto,
          r_movimiento_id = Some (Suc (max_id (movimientos d)))\<rparr>,
     asentado d now cid (c_saldo c + monto)
       \<lparr>m_id = None, m_cuenta_id = cid, m_tipo = tipo, m_monto = monto,
        m_saldo_anterior = c_saldo c, m_saldo_nuevo = c_saldo c + monto,
        m_descripcion = descripcion, m_referencia = None, m_fecha = now,
        m_created_at = now\<rparr>)"
  using assms
  by (simp add: acreditar_saldo_def obtener_cuenta_def Let_def
        update_saldo_existing [OF assms(1)] crear_movimiento_eq asentado_def)

lemma sin_cuenta:
  assumes "get_by_id d cid = None"
  shows "\<exists>e. depositar d now cid dep = (Inl e, d)"
    and "\<exists>e. retirar d now cid ret = (Inl e, d)"
    and "\<exists>e. descontar_saldo d now cid monto descripcion tipo = (Inl e, d)"
    and "\<exists>e. acreditar_saldo d now cid monto descripcion tipo = (Inl e, d)"
  using assms
  by (simp_all add: depositar_def retirar_def descontar_saldo_def acreditar_saldo_def
        obtener_cuenta_def)

lemma no_activa:
  assumes "get_by_id d cid = Some c" "c_estado c \<noteq> ACTIVA"
  shows "\<exists>e. depositar d now cid dep = (Inl e, d)"
    and "\<exists>e. retirar d now cid ret = (Inl e, d)"
    and "\<exists>e. descontar_saldo d now cid monto descripcion tipo = (Inl e, d)"
    and "\<exists>e. acreditar_saldo d now cid monto descripcion tipo = (Inl e, d)"
  using assms
  by (simp_all add: depositar_def retirar_def descontar_saldo_def acreditar_saldo_def
        obtener_cuenta_def)

lemma saldo_insuficiente:
  assumes "get_by_id d cid = Some c" "c_estado c = ACTIVA"
  shows "c_saldo c < ret_monto ret \<Longrightarrow>
           retirar d now cid ret =
             (Inl (HTTPException 400
                [Txt ''Saldo insuficiente. Saldo disponible: '', SaldoP (c_saldo c),
                 Txt '' '', MonedaP (c_moneda c)]), d)"
    and "c_saldo c < monto \<Longrightarrow>
           descontar_saldo d now cid monto descripcion tipo =
             (Inl (HTTPException 400 [Txt ''Saldo insuficiente'']), d)"
  using assms
  by (simp_all add: retirar_def descontar_saldo_def obtener_cuenta_def)

section \<open>The repository's mutations\<close>

lemma get_by_id_update:
  assumes "get_by_id d cid = Some c"
  shows "\<exists>d1. update d now cid upd = Inr (True, d1) \<and>
              get_by_id d1 cid = Some (apply_update (upd\<lparr>u_updated_at := Some now\<rparr>) c)"
proof -
  from get_by_id_Some [OF assms] obtain c0 where
    c0: "map_of (cuentas d) cid = Some c0" and c: "c = c0\<lparr>c_id := Some cid\<rparr>"
    by blast
  show ?thesis
    unfolding update_existing [OF c0]
    by (simp add: get_by_id_def map_of_update_docs c0 c apply_update_def
          split: option.splits)
qed

text \<open>
  C10. \<open>update\<close>, \<open>update_saldo\<close>, \<open>cambiar_estado\<close> and \<open>delete\<close> have one return
  value, \<open>True\<close>. On every store and every input each of them either returns \<open>True\<close>
  or raises the store's exception, so \<open>False\<close> is never returned; and when the document
  exists each of them does return \<open>True\<close>, with the fields written: the new balance,
  the new state, CERRADA for \<open>delete\<close>.
\<close>

theorem mutations_return_True:
  "((\<exists>d1. update d now cid upd = Inr (True, d1)) \<or>
      update d now cid upd = Inl FirestoreNotFound) \<and>
   ((\<exists>d1. update_saldo d now cid s = Inr (True, d1)) \<or>
      update_saldo d now cid s = Inl FirestoreNotFound) \<and>
   ((\<exists>d1. cambiar_estado d now cid e = Inr (True, d1)) \<or>
      cambiar_estado d now cid e = Inl FirestoreNotFound) \<and>
   ((\<exists>d1. delete d now cid = Inr (True, d1)) \<or>
      delete d now cid = Inl FirestoreNotFound) \<and>
   (get_by_id d cid = Some c \<longrightarrow>
      (\<exists>d1. update d now cid upd = Inr (True, d1) \<and>
         get_by_id d1 cid = Some (apply_update (upd\<lparr>u_updated_at := Some now\<rparr>) c)) \<and>
      (\<exists>d1. update_saldo d now cid s = Inr (True, d1) \<and> saldo_de d1 cid = Some s) \<and>
      (\<exists>d1. cambiar_estado d now cid e = Inr (True, d1) \<and> estado_de d1 cid = Some e) \<and>
      (\<exists>d1. delete d now cid = Inr (True, d1) \<and> estado_de d1 cid = Some CERRADA))"
proof -
  have always:
    "((\<exists>d1. update d now cid upd = Inr (True, d1)) \<or>
        update d now cid upd = Inl FirestoreNotFound) \<and>
     ((\<exists>d1. update_saldo d now cid s = Inr (True, d1)) \<or>
        update_saldo d now cid s = Inl FirestoreNotFound) \<and>
     ((\<exists>d1. cambiar_estado d now cid e = Inr (True, d1)) \<or>
        cambiar_estado d now cid e = Inl FirestoreNotFound) \<and>
     ((\<exists>d1. delete d now cid = Inr (True, d1)) \<or>
        delete d now cid = Inl FirestoreNotFound)"
    by (cases "map_of (cuentas d) cid")
       (simp_all add: update_saldo_def cambiar_estado_def delete_def update_existing
          update_missing)
  have existing:
    "(\<exists>d1. update d now cid upd = Inr (True, d1) \<and>
         get_by_id d1 cid = Some (apply_update (upd\<lparr>u_updated_at := Some now\<rparr>) c)) \<and>
     (\<exists>d1. update_saldo d now cid s = Inr (True, d1) \<and> saldo_de d1 cid = Some s) \<and>
     (\<exists>d1. cambiar_estado d now cid e = Inr (True, d1) \<and> estado_de d1 cid = Some e) \<and>
     (\<exists>d1. delete d now cid = Inr (True, d1) \<and> estado_de d1 cid = Some CERRADA)"
    if c: "get_by_id d cid = Some c"
  proof (intro conjI)
    show "\<exists>d1. update d now cid upd = Inr (True, d1) \<and>
         get_by_id d1 cid = Some (apply_update (upd\<lparr>u_updated_at := Some now\<rparr>) c)"
      by (rule get_by_id_update [OF c])
    show "\<exists>d1. update_saldo d now cid s = Inr (True, d1) \<and> saldo_de d1 cid = Some s"
      using get_by_id_update [OF c, of now "empty_update\<lparr>u_saldo := Some s\<rparr>"]
      by (auto simp: update_saldo_def saldo_de_def apply_update_def)
    show "\<exists>d1. cambiar_estado d now cid e = Inr (True, d1) \<and> estado_de d1 cid = Some e"
      using get_by_id_update [OF c, of now "empty_update\<lparr>u_estado := Some e\<rparr>"]
      by (auto simp: cambiar_estado_def estado_de_def apply_update_def)
    show "\<exists>d1. delete d now cid = Inr (True, d1) \<and> estado_de d1 cid = Some CERRADA"
      using get_by_id_update [OF c, of now "empty_update\<lparr>u_estado := Some CERRADA\<rparr>"]
      by (auto simp: delete_def cambiar_estado_def estado_de_def apply_update_def)
  qed
  from always existing show ?thesis by blast
qed

theorem mutations_return_True_witness:
  "get_by_id demo_db 1 = Some (demo_cuenta\<lparr>c_id := Some 1\<rparr>) \<and>
   (\<exists>d1. update demo_db 3 1 (empty_update\<lparr>u_tipo := Some CORRIENTE\<rparr>) = Inr (True, d1) \<and>
      map_option c_tipo (get_by_id d1 1) = Some CORRIENTE) \<and>
   (\<exists>d1. update_saldo demo_db 3 1 55 = Inr (True, d1) \<and> saldo_de d1 1 = Some 55) \<and>
   (\<exists>d1. cambiar_estado demo_db 3 1 BLOQUEADA = Inr (True, d1) \<and>
      estado_de d1 1 = Some BLOQUEADA) \<and>
   (\<exists>d1. delete demo_db 3 1 = Inr (True, d1) \<and> estado_de d1 1 = Some CERRADA) \<and>
   delete demo_db 3 2 = Inl FirestoreNotFound"
proof -
  have h: "get_by_id demo_db 1 = Some (demo_cuenta\<lparr>c_id := Some 1\<rparr>)"
    by (simp add: get_by_id_def demo_db_def)
  have t: "c_tipo (apply_update (empty_update\<lparr>u_tipo := Some CORRIENTE, u_updated_at := Some 3\<rparr>)
             (demo_cuenta\<lparr>c_id := Some 1\<rparr>)) = CORRIENTE"
    by (simp add: apply_update_def)
  have missing: "delete demo_db 3 2 = Inl FirestoreNotFound"
    by (simp add: delete_def cambiar_estado_def update_def demo_db_def)
  from mutations_return_True
    [of demo_db 3 1 "empty_update\<lparr>u_tipo := Some CORRIENTE\<rparr>" 55 BLOQUEADA
        "demo_cuenta\<lparr>c_id := Some 1\<rparr>"] h
  have "(\<exists>d1. update demo_db 3 1 (empty_update\<lparr>u_tipo := Some CORRIENTE\<rparr>) = Inr (True, d1) \<and>
           get_by_id d1 1 = Some (apply_update
             (empty_update\<lparr>u_tipo := Some CORRIENTE, u_updated_at := Some 3\<rparr>)
             (demo_cuenta\<lparr>c_id := Some 1\<rparr>))) \<and>
        (\<exists>d1. update_saldo demo_db 3 1 55 = Inr (True, d1) \<and> saldo_de d1 1 = Some 55) \<and>
        (\<exists>d1. cambiar_estado demo_db 3 1 BLOQUEADA = Inr (True, d1) \<and>
           estado_de d1 1 = Some BLOQUEADA) \<and>
        (\<exists>d1. delete demo_db 3 1 = Inr (True, d1) \<and> estado_de d1 1 = Some CERRADA)"
    by simp
  with h t missing show ?thesis
    by auto
qed

section \<open>The balance pre-check\<close>

text \<open>
  C8. For an account that exists, \<open>validar_saldo_disponible\<close> returns true exactly when
  the account is ACTIVA and its balance is at least the amount (so false for a BLOQUEADA
  or CERRADA account whatever the balance), it does not raise, and it leaves the store
  as it found it.
\<close>

theorem validar_saldo_disponible_iff:
  assumes "get_by_id d cid = Some c"
  shows "validar_saldo_disponible d cid monto =
           (Inr (c_estado c = ACTIVA \<and> monto \<le> c_saldo c), d)"
  using assms by (simp add: validar_saldo_disponible_def obtener_cuenta_def)

theorem validar_saldo_disponible_iff_witness:
  "get_by_id demo_db 1 = Some (demo_cuenta\<lparr>c_id := Some 1\<rparr>) \<and>
   validar_saldo_disponible demo_db 1 40 = (Inr True, demo_db) \<and>
   validar_saldo_disponible demo_db 1 140 = (Inr False, demo_db)"
proof -
  have h: "get_by_id demo_db 1 = Some (demo_cuenta\<lparr>c_id := Some 1\<rparr>)"
    by (simp add: get_by_id_def demo_db_def)
  show ?thesis
    using h validar_saldo_disponible_iff [OF h, of 40]
      validar_saldo_disponible_iff [OF h, of 140]
    by (simp add: demo_cuenta_def)
qed

section \<open>Withdrawals\<close>

text \<open>
  C4. On an existing ACTIVA account, a withdrawal of more than the balance raises the
  400 error whose detail carries the available balance and the currency, and leaves the
  store untouched (same balance, no movement); a withdrawal of at most the balance
  succeeds, stores the old balance minus the amount and adds exactly one RETIRO
  movement.
\<close>

theorem retirar_fondos:
  assumes "get_by_id d cid = Some c" and "c_estado c = ACTIVA"
  shows "(c_saldo c < ret_monto ret \<longrightarrow>
            retirar d now cid ret =
              (Inl (HTTPException 400
                 [Txt ''Saldo insuficiente. Saldo disponible: '', SaldoP (c_saldo c),
                  Txt '' '', MonedaP (c_moneda c)]), d)) \<and>
         (ret_monto ret \<le> c_saldo c \<longrightarrow>
            (\<exists>resp d' mid m.
               retirar d now cid ret = (Inr resp, d') \<and>
               saldo_de d' cid = Some (c_saldo c - ret_monto ret) \<and>
               movimientos d' = movimientos d @ [(mid, m)] \<and>
               r_movimiento_id resp = Some mid \<and>
               m_cuenta_id m = cid \<and> m_tipo m = RETIRO \<and> m_monto m = ret_monto ret \<and>
               m_saldo_anterior m = c_saldo c \<and>
               m_saldo_nuevo m = c_saldo c - ret_monto ret))"
proof (intro conjI impI)
  assume "c_saldo c < ret_monto ret"
  then show "retirar d now cid ret =
      (Inl (HTTPException 400
         [Txt ''Saldo insuficiente. Saldo disponible: '', SaldoP (c_saldo c),
          Txt '' '', MonedaP (c_moneda c)]), d)"
    by (rule saldo_insuficiente(1) [OF assms])
next
  assume le: "ret_monto ret \<le> c_saldo c"
  show "\<exists>resp d' mid m.
          retirar d now cid ret = (Inr resp, d') \<and>
          saldo_de d' cid = Some (c_saldo c - ret_monto ret) \<and>
          movimientos d' = movimientos d @ [(mid, m)] \<and>
          r_movimiento_id resp = Some mid \<and>
          m_cuenta_id m = cid \<and> m_tipo m = RETIRO \<and> m_monto m = ret_monto ret \<and>
          m_saldo_anterior m = c_saldo c \<and>
          m_saldo_nuevo m = c_saldo c - ret_monto ret"
    by (simp add: retirar_ok [OF assms le] saldo_de_def get_by_id_asentado
          movimientos_asentado assms(1))
qed

theorem retirar_fondos_witness:
  "retirar demo_db 5 1 \<lparr>ret_monto = 200, ret_descripcion = ''cajero''\<rparr> =
     (Inl (HTTPException 400
        [Txt ''Saldo insuficiente. Saldo disponible: '', SaldoP 100, Txt '' '', MonedaP BOB]),
      demo_db) \<and>
   (\<exists>resp d' mid m.
      retirar demo_db 5 1 \<lparr>ret_monto = 40, ret_descripcion = ''cajero''\<rparr> = (Inr resp, d') \<and>
      saldo_de d' 1 = Some 60 \<and> movimientos d' = [(mid, m)] \<and> m_tipo m = RETIRO \<and>
      m_monto m = 40)"
proof -
  have h: "get_by_id demo_db 1 = Some (demo_cuenta\<lparr>c_id := Some 1\<rparr>)"
    by (simp add: get_by_id_def demo_db_def)
  have a: "c_estado (demo_cuenta\<lparr>c_id := Some 1\<rparr>) = ACTIVA"
    by (simp add: demo_cuenta_def)
  have s: "c_saldo (demo_cuenta\<lparr>c_id := Some 1\<rparr>) = 100"
       "c_moneda (demo_cuenta\<lparr>c_id := Some 1\<rparr>) = BOB" "movimientos demo_db = []"
    by (simp_all add: demo_cuenta_def demo_db_def)
  from retirar_fondos [OF h a, of "\<lparr>ret_monto = 200, ret_descripcion = ''cajero''\<rparr>" 5]
    retirar_fondos [OF h a, of "\<lparr>ret_monto = 40, ret_descripcion = ''cajero''\<rparr>" 5]
  show ?thesis
    unfolding s by simp blast
qed

section \<open>Debits and credits with a non-positive amount\<close>

text \<open>
  C5. \<open>descontar_saldo\<close> and \<open>acreditar_saldo\<close> take the amount as it comes. On the
  account with balance 100, a debit of -50 succeeds, raises the balance to 150 and
  records a RETIRO of -50; a credit of -50 succeeds, lowers the balance to 50 and records
  a DEPOSITO of -50; a credit of 0 succeeds and records a movement. The request schemas
  of deposit and withdrawal reject such amounts before the service is reached.
\<close>

theorem monto_no_positivo_aceptado:
  "(\<exists>resp d'. descontar_saldo demo_db 7 1 (- 50) ''ajuste'' RETIRO = (Inr resp, d') \<and>
      r_success resp \<and> saldo_de d' 1 = Some 150 \<and>
      map (\<lambda>(i, m). (m_tipo m, m_monto m)) (movimientos d') = [(RETIRO, - 50)]) \<and>
   (\<exists>resp d'. acreditar_saldo demo_db 7 1 (- 50) ''ajuste'' DEPOSITO = (Inr resp, d') \<and>
      r_success resp \<and> saldo_de d' 1 = Some 50 \<and>
      map (\<lambda>(i, m). (m_tipo m, m_monto m)) (movimientos d') = [(DEPOSITO, - 50)]) \<and>
   (\<exists>resp d'. acreditar_saldo demo_db 7 1 0 ''nada'' DEPOSITO = (Inr resp, d') \<and>
      r_success resp \<and> length (movimientos d') = 1)"
proof -
  have h: "get_by_id demo_db 1 = Some (demo_cuenta\<lparr>c_id := Some 1\<rparr>)"
    by (simp add: get_by_id_def demo_db_def)
  have a: "c_estado (demo_cuenta\<lparr>c_id := Some 1\<rparr>) = ACTIVA"
    by (simp add: demo_cuenta_def)
  have le: "- 50 \<le> c_saldo (demo_cuenta\<lparr>c_id := Some 1\<rparr>)"
    by (simp add: demo_cuenta_def)
  have s: "c_saldo (demo_cuenta\<lparr>c_id := Some 1\<rparr>) = 100" "movimientos demo_db = []"
    by (simp_all add: demo_cuenta_def demo_db_def)
  show ?thesis
    unfolding descontar_saldo_ok [OF h a le] acreditar_saldo_ok [OF h a]
    by (simp add: saldo_de_def asentado_def get_by_id_def demo_db_def demo_cuenta_def)
qed

section \<open>The CERRADA state\<close>

text \<open>
  C3, as stated, fails: CERRADA is not terminal. Blocking the closed account succeeds
  and leaves it BLOQUEADA, and an update request naming a state stores that state.
\<close>

theorem cerrada_no_terminal:
  "estado_de demo_cerrada 1 = Some CERRADA \<and>
   (\<exists>c d'. bloquear_cuenta demo_cerrada 3 1 = (Inr (Some c), d') \<and>
      c_estado c = BLOQUEADA \<and> estado_de d' 1 = Some BLOQUEADA) \<and>
   (\<exists>c d'. actualizar_cuenta demo_cerrada 3 1 \<lparr>cu_tipo = None, cu_estado = Some ACTIVA\<rparr> =
              (Inr (Some c), d') \<and>
      c_estado c = ACTIVA \<and> estado_de d' 1 = Some ACTIVA)"
  by (simp add: estado_de_def get_by_id_def demo_cerrada_def demo_cuenta_def bloquear_cuenta_def
        obtener_cuenta_def cambiar_estado_def update_def apply_update_def empty_update_def
        actualizar_cuenta_def model_dump_def)

text \<open>
  C3, amended. On an existing CERRADA account, deposit, withdrawal, debit, credit and
  unblock all raise and leave the store as it was, and the balance pre-check answers
  false without touching the store; so none of them moves the account out of CERRADA.
\<close>

theorem cerrada_rechaza_operaciones:
  assumes "get_by_id d cid = Some c" and "c_estado c = CERRADA"
  shows "(\<exists>e. depositar d now cid dep = (Inl e, d)) \<and>
         (\<exists>e. retirar d now cid ret = (Inl e, d)) \<and>
         (\<exists>e. descontar_saldo d now cid monto descripcion tipo = (Inl e, d)) \<and>
         (\<exists>e. acreditar_saldo d now cid monto descripcion tipo = (Inl e, d)) \<and>
         (\<exists>e. desbloquear_cuenta d now cid = (Inl e, d)) \<and>
         validar_saldo_disponible d cid monto = (Inr False, d)"
proof -
  have na: "c_estado c \<noteq> ACTIVA" using assms(2) by simp
  have "\<exists>e. desbloquear_cuenta d now cid = (Inl e, d)"
    using assms by (simp add: desbloquear_cuenta_def obtener_cuenta_def)
  moreover have "validar_saldo_disponible d cid monto = (Inr False, d)"
    using assms by (simp add: validar_saldo_disponible_def obtener_cuenta_def)
  ultimately show ?thesis
    using no_activa [OF assms(1) na] by blast
qed

theorem cerrada_rechaza_operaciones_witness:
  "get_by_id demo_cerrada 1 = Some (demo_cuenta\<lparr>c_estado := CERRADA, c_id := Some 1\<rparr>) \<and>
   (\<exists>e. depositar demo_cerrada 4 1 \<lparr>dep_monto = 10, dep_descripcion = ''x''\<rparr> =
          (Inl e, demo_cerrada)) \<and>
   (\<exists>e. desbloquear_cuenta demo_cerrada 4 1 = (Inl e, demo_cerrada)) \<and>
   validar_saldo_disponible demo_cerrada 1 10 = (Inr False, demo_cerrada)"
proof -
  have h: "get_by_id demo_cerrada 1 = Some (demo_cuenta\<lparr>c_estado := CERRADA, c_id := Some 1\<rparr>)"
    by (simp add: get_by_id_def demo_cerrada_def)
  have a: "c_estado (demo_cuenta\<lparr>c_estado := CERRADA, c_id := Some 1\<rparr>) = CERRADA"
    by simp
  from cerrada_rechaza_operaciones [OF h a, of 4 "\<lparr>dep_monto = 10, dep_descripcion = ''x''\<rparr>" _ 10]
  show ?thesis using h by blast
qed

section \<open>Balance and ledger\<close>

text \<open>
  What one call does: it raises and leaves the store alone, or it settles one movement
  on an ACTIVA account.
\<close>

lemma ejecutar_efecto:
  "(\<exists>e. ejecutar d now op = (Inl e, d)) \<or>
   (\<exists>r cid sn mov c.
      ejecutar d now op = (Inr r, asentado d now cid sn mov) \<and> m_saldo_nuevo mov = sn \<and>
      get_by_id d cid = Some c \<and> c_estado c = ACTIVA \<and> m_cuenta_id mov = cid \<and>
      m_saldo_anterior mov = c_saldo c \<and>
      m_saldo_nuevo mov =
        (if es_abono op then m_saldo_anterior mov + m_monto mov
         else m_saldo_anterior mov - m_monto mov) \<and>
      (tipo_acorde op \<longrightarrow> es_entrada (m_tipo mov) = es_abono op))"
proof (cases op)
  case (Depositar cid dep)
  show ?thesis
  proof (cases "get_by_id d cid")
    case None
    then show ?thesis using sin_cuenta(1) [OF None] Depositar by simp
  next
    case (Some c)
    show ?thesis
    proof (cases "c_estado c = ACTIVA")
      case True
      show ?thesis
        unfolding Depositar ejecutar.simps depositar_ok [OF Some True]
        by (rule disjI2, intro exI conjI, rule refl) (simp_all add: Some True es_entrada_def)
    next
      case False
      then show ?thesis using no_activa(1) [OF Some False] Depositar by simp
    qed
  qed
next
  case (Retirar cid ret)
  show ?thesis
  proof (cases "get_by_id d cid")
    case None
    then show ?thesis using sin_cuenta(2) [OF None] Retirar by simp
  next
    case (Some c)
    show ?thesis
    proof (cases "c_estado c = ACTIVA")
      case True
      show ?thesis
      proof (cases "ret_monto ret \<le> c_saldo c")
        case le: True
        show ?thesis
          unfolding Retirar ejecutar.simps retirar_ok [OF Some True le]
          by (rule disjI2, intro exI conjI, rule refl) (simp_all add: Some True es_entrada_def)
      next
        case False
        then have "c_saldo c < ret_monto ret" by simp
        from saldo_insuficiente(1) [OF Some True this] show ?thesis
          using Retirar by simp
      qed
    next
      case False
      then show ?thesis using no_activa(2) [OF Some False] Retirar by simp
    qed
  qed
next
  case (Descontar cid monto descripcion tipo)
  show ?thesis
  proof (cases "get_by_id d cid")
    case None
    then show ?thesis using sin_cuenta(3) [OF None] Descontar by simp
  next
    case (Some c)
    show ?thesis
    proof (cases "c_estado c = ACTIVA")
      case True
      show ?thesis
      proof (cases "monto \<le> c_saldo c")
        case le: True
        show ?thesis
          unfolding Descontar ejecutar.simps descontar_saldo_ok [OF Some True le]
          by (rule disjI2, intro exI conjI, rule refl) (simp_all add: Some True)
      next
        case False
        then have "c_saldo c < monto" by simp
        from saldo_insuficiente(2) [OF Some True this] show ?thesis
          using Descontar by simp
      qed
    next
      case False
      then show ?thesis using no_activa(3) [OF Some False] Descontar by simp
    qed
  qed
next
  case (Acreditar cid monto descripcion tipo)
  show ?thesis
  proof (cases "get_by_id d cid")
    case None
    then show ?thesis using sin_cuenta(4) [OF None] Acreditar by simp
  next
    case (Some c)
    show ?thesis
    proof (cases "c_estado c = ACTIVA")
      case True
      show ?thesis
        unfolding Acreditar ejecutar.simps acreditar_saldo_ok [OF Some True]
        by (rule disjI2, intro exI conjI, rule refl) (simp_all add: Some True)
    next
      case False
      then show ?thesis using no_activa(4) [OF Some False] Acreditar by simp
    qed
  qed
qed

lemma creados_same [simp]: "creados d d = []"
  by (simp add: creados_def)

lemma creados_asentado [simp]:
  "creados d (asentado d now cid sn mov) =
     [(Suc (max_id (movimientos d)), mov\<lparr>m_created_at := now, m_id := None\<rparr>)]"
  by (simp add: creados_def movimientos_asentado)

lemma saldo_de_asentado:
  "saldo_de (asentado d now cid sn mov) j =
     (if j = cid then map_option (\<lambda>b. sn) (saldo_de d j) else saldo_de d j)"
  by (simp add: saldo_de_def get_by_id_asentado option.map_comp comp_def)

lemma extiende_creados:
  "movimientos d' = movimientos d @ ms \<Longrightarrow> movimientos d' = movimientos d @ creados d d'"
  by (simp add: creados_def)

lemma ejecutar_extiende:
  "ejecutar d now op = (res, d') \<Longrightarrow> movimientos d' = movimientos d @ creados d d'"
  using ejecutar_efecto [of d now op]
  by (auto simp: movimientos_asentado)

lemma ejecutar_todas_extiende:
  "ejecutar_todas d ops = Some d' \<Longrightarrow> movimientos d' = movimientos d @ creados d d'"
proof (induction ops arbitrary: d)
  case Nil
  then show ?case by simp
next
  case (Cons x ops)
  obtain now op where x: "x = (now, op)" by (cases x)
  from Cons.prems x obtain r d1 where
    step: "ejecutar d now op = (Inr r, d1)" and rest: "ejecutar_todas d1 ops = Some d'"
    by (auto split: prod.splits sum.splits)
  from ejecutar_extiende [OF step] Cons.IH [OF rest]
  have "movimientos d' = movimientos d @ (creados d d1 @ creados d1 d')" by simp
  then show ?case by (rule extiende_creados)
qed

lemma creados_trans:
  assumes "movimientos d1 = movimientos d @ creados d d1"
    and "movimientos d2 = movimientos d1 @ creados d1 d2"
  shows "creados d d2 = creados d d1 @ creados d1 d2"
proof -
  have "movimientos d2 = movimientos d @ (creados d d1 @ creados d1 d2)"
    using assms by simp
  then show ?thesis
    unfolding creados_def [of d d2] by simp
qed

lemma movimientos_de_append:
  "movimientos_de cid (xs @ ys) = movimientos_de cid xs @ movimientos_de cid ys"
  by (simp add: movimientos_de_def)

lemma aplicar_movimiento_stored [simp]:
  "aplicar_movimiento b (mov\<lparr>m_created_at := t, m_id := i\<rparr>) = aplicar_movimiento b mov"
  by (simp add: aplicar_movimiento_def)

lemma ejecutar_saldo:
  assumes "ejecutar d now op = (Inr r, d')" and "tipo_acorde op" and "saldo_de d j = Some b"
  shows "saldo_de d' j = Some (foldl aplicar_movimiento b (movimientos_de j (creados d d')))"
proof -
  from ejecutar_efecto [of d now op] assms(1,2) obtain cid sn mov c where
    d': "d' = asentado d now cid sn mov" and sn: "m_saldo_nuevo mov = sn"
    and c: "get_by_id d cid = Some c" and cu: "m_cuenta_id mov = cid"
    and sa: "m_saldo_anterior mov = c_saldo c"
    and nuevo: "m_saldo_nuevo mov =
                 (if es_abono op then m_saldo_anterior mov + m_monto mov
                  else m_saldo_anterior mov - m_monto mov)"
    and ent: "es_entrada (m_tipo mov) = es_abono op"
    by auto
  show ?thesis
  proof (cases "j = cid")
    case True
    with c assms(3) have b: "b = c_saldo c" by (simp add: saldo_de_def)
    from nuevo ent sn sa have "sn = aplicar_movimiento (c_saldo c) mov"
      by (simp add: aplicar_movimiento_def)
    then show ?thesis
      using True assms(3) b cu
      by (simp add: d' saldo_de_asentado movimientos_de_def)
  next
    case False
    then show ?thesis
      using assms(3) cu
      by (simp add: d' saldo_de_asentado movimientos_de_def)
  qed
qed

text \<open>
  C1, amended. Take any run of deposit, withdraw, debit and credit calls that all succeed,
  one after the other, in which every debit carries a kind of the outgoing group (RETIRO,
  TRANSFERENCIA_SALIDA, PAGO_SERVICIO) and every credit a kind of the incoming group
  (DEPOSITO, TRANSFERENCIA_ENTRADA). Then the balance of every account at the end is what
  comes out of its balance at the start when the movements that the run created for it
  are applied to it one after the other, in the order of their creation: the amount of
  a DEPOSITO or TRANSFERENCIA_ENTRADA is added, the amount of a RETIRO,
  TRANSFERENCIA_SALIDA or PAGO_SERVICIO is subtracted. These are the additions and
  subtractions that the operations perform, in their order; no sum is regrouped.
\<close>

theorem saldo_igual_a_movimientos:
  assumes "ejecutar_todas d ops = Some d'"
    and "list_all (\<lambda>(now, op). tipo_acorde op) ops"
    and "saldo_de d cid = Some b"
  shows "saldo_de d' cid =
           Some (foldl aplicar_movimiento b (movimientos_de cid (creados d d')))"
  using assms
proof (induction ops arbitrary: d b)
  case Nil
  then show ?case by (simp add: movimientos_de_def)
next
  case (Cons x ops)
  obtain now op where x: "x = (now, op)" by (cases x)
  from Cons.prems(1) x obtain r d1 where
    step: "ejecutar d now op = (Inr r, d1)" and rest: "ejecutar_todas d1 ops = Some d'"
    by (auto split: prod.splits sum.splits)
  from Cons.prems(2) x have ok: "tipo_acorde op"
    and oks: "list_all (\<lambda>(now, op). tipo_acorde op) ops"
    by simp_all
  have s1: "saldo_de d1 cid =
              Some (foldl aplicar_movimiento b (movimientos_de cid (creados d d1)))"
    by (rule ejecutar_saldo [OF step ok Cons.prems(3)])
  have s2: "saldo_de d' cid =
              Some (foldl aplicar_movimiento
                      (foldl aplicar_movimiento b (movimientos_de cid (creados d d1)))
                      (movimientos_de cid (creados d1 d')))"
    by (rule Cons.IH [OF rest oks s1])
  have "creados d d' = creados d d1 @ creados d1 d'"
    by (rule creados_trans [OF ejecutar_extiende [OF step] ejecutar_todas_extiende [OF rest]])
  then show ?case
    using s2 by (simp add: movimientos_de_append)
qed

text \<open>The definitions to unfold when a call is run on a concrete store.\<close>

lemmas ejecucion_defs =
  depositar_def retirar_def descontar_saldo_def acreditar_saldo_def obtener_cuenta_def
  get_by_id_def update_saldo_def cambiar_estado_def update_def apply_update_def
  empty_update_def crear_movimiento_def add_def Let_def saldo_de_def estado_de_def
  creados_def suma_movimientos_def monto_con_signo_def es_entrada_def movimiento_cuadra_def

theorem saldo_igual_a_movimientos_witness:
  "\<exists>d'. ejecutar_todas demo_db demo_ops = Some d' \<and>
         list_all (\<lambda>(now, op). tipo_acorde op) demo_ops \<and>
         saldo_de demo_db 1 = Some 100 \<and>
         map (\<lambda>m. (m_tipo m, m_monto m)) (movimientos_de 1 (creados demo_db d')) =
           [(DEPOSITO, 50), (RETIRO, 30), (TRANSFERENCIA_ENTRADA, 20), (PAGO_SERVICIO, 15)] \<and>
         foldl aplicar_movimiento 100 (movimientos_de 1 (creados demo_db d')) = 125 \<and>
         saldo_de d' 1 = Some 125"
proof -
  have ok: "list_all (\<lambda>(now, op). tipo_acorde op) demo_ops"
    by (simp add: demo_ops_def es_entrada_def)
  have s: "saldo_de demo_db 1 = Some 100"
    by (simp add: ejecucion_defs demo_db_def demo_cuenta_def)
  obtain d' where run: "ejecutar_todas demo_db demo_ops = Some d'"
    and ms: "map (\<lambda>m. (m_tipo m, m_monto m)) (movimientos_de 1 (creados demo_db d')) =
           [(DEPOSITO, 50), (RETIRO, 30), (TRANSFERENCIA_ENTRADA, 20), (PAGO_SERVICIO, 15)]"
    and f: "foldl aplicar_movimiento 100 (movimientos_de 1 (creados demo_db d')) = 125"
    by (simp add: demo_ops_def ejecucion_defs movimientos_de_def aplicar_movimiento_def
          demo_db_def demo_cuenta_def)
  from saldo_igual_a_movimientos [OF run ok s] run ok s ms f
  show ?thesis by simp
qed

text \<open>
  C1, as stated, fails: a credit may carry any kind. A credit of 10 recorded as RETIRO
  raises the balance from 100 to 110, while the balance at the start minus the RETIRO
  amount is 90.
\<close>

theorem saldo_difiere_de_movimientos:
  "\<exists>d'. ejecutar_todas demo_db [(7, Acreditar 1 10 ''reverso'' RETIRO)] = Some d' \<and>
         saldo_de demo_db 1 = Some 100 \<and>
         map (\<lambda>(i, m). (m_cuenta_id m, m_tipo m, m_monto m)) (creados demo_db d') =
           [(1, RETIRO, 10)] \<and>
         100 + suma_movimientos 1 (creados demo_db d') = 90 \<and>
         saldo_de d' 1 = Some 110"
  by (simp add: ejecucion_defs demo_db_def demo_cuenta_def)

section \<open>Account numbers\<close>

lemma cuenta_existe_iff: "cuenta_existe d numero \<longleftrightarrow> numero \<in> set (numeros d)"
proof -
  have "cuenta_existe d numero \<longleftrightarrow> filter (\<lambda>(i, c). c_numero_cuenta c = numero) (cuentas d) \<noteq> []"
    by (cases "filter (\<lambda>(i, c). c_numero_cuenta c = numero) (cuentas d)")
       (simp_all add: cuenta_existe_def)
  also have "\<dots> \<longleftrightarrow> numero \<in> set (numeros d)"
    by (auto simp: numeros_def filter_empty_conv)
  finally show ?thesis .
qed

lemma generar_numero_cuenta_Some:
  assumes "generar_numero_cuenta d = Some (numero, d')"
  shows "10 \<le> length (rng d)" and "numero = sorteo (rng d) 0" and "d' = d\<lparr>rng := drop 10 (rng d)\<rparr>"
  using assms
  by (auto simp: generar_numero_cuenta_def random_choices_def sorteo_def split: if_splits)

lemma generar_numero_cuenta_enough:
  "10 \<le> length (rng d) \<Longrightarrow>
   generar_numero_cuenta d = Some (sorteo (rng d) 0, d\<lparr>rng := drop 10 (rng d)\<rparr>)"
  by (simp add: generar_numero_cuenta_def random_choices_def sorteo_def)

lemma sorteo_digits:
  assumes "10 * Suc k \<le> length tape"
  shows "length (sorteo tape k) = 10" and "set (sorteo tape k) \<subseteq> set string_digits"
proof -
  show "length (sorteo tape k) = 10"
    using assms by (simp add: sorteo_def)
  show "set (sorteo tape k) \<subseteq> set string_digits"
  proof
    fix ch assume "ch \<in> set (sorteo tape k)"
    then obtain r where "ch = string_digits ! (r mod length string_digits)"
      by (auto simp: sorteo_def)
    moreover have "r mod length string_digits < length string_digits"
      by (simp add: string_digits_def)
    ultimately show "ch \<in> set string_digits"
      using nth_mem by blast
  qed
qed

lemma sorteo_drop: "sorteo (drop 10 tape) k = sorteo tape (Suc k)"
  by (simp add: sorteo_def add.commute)

lemma numeros_rng [simp]: "numeros (d\<lparr>rng := t\<rparr>) = numeros d"
  by (simp add: numeros_def)

lemma generar_numero_cuenta_unico_Some:
  "generar_numero_cuenta_unico d = Some (numero, d') \<Longrightarrow>
     length numero = 10 \<and> set numero \<subseteq> set string_digits \<and> numero \<notin> set (numeros d) \<and>
     cuentas d' = cuentas d \<and> movimientos d' = movimientos d"
proof (induction d rule: generar_numero_cuenta_unico.induct)
  case (1 d)
  from "1.prems" obtain n d1 where g: "generar_numero_cuenta d = Some (n, d1)"
    by (subst (asm) generar_numero_cuenta_unico.simps) (auto split: option.splits)
  note facts = generar_numero_cuenta_Some [OF g]
  have len: "10 * Suc 0 \<le> length (rng d)" using facts(1) by simp
  show ?case
  proof (cases "cuenta_existe d1 n")
    case False
    with "1.prems" g have "numero = n" "d' = d1"
      by (subst (asm) generar_numero_cuenta_unico.simps, simp)+
    with False facts sorteo_digits [OF len] show ?thesis
      by (simp add: cuenta_existe_iff)
  next
    case True
    with "1.prems" g have "generar_numero_cuenta_unico d1 = Some (numero, d')"
      by (subst (asm) generar_numero_cuenta_unico.simps) simp
    from "1.IH" [OF g refl _ this] True facts show ?thesis
      by simp
  qed
qed

lemma generar_numero_cuenta_unico_returns:
  "10 * Suc k \<le> length (rng d) \<Longrightarrow> sorteo (rng d) k \<notin> set (numeros d) \<Longrightarrow>
   \<exists>numero d'. generar_numero_cuenta_unico d = Some (numero, d')"
proof (induction k arbitrary: d)
  case 0
  then have "generar_numero_cuenta d = Some (sorteo (rng d) 0, d\<lparr>rng := drop 10 (rng d)\<rparr>)"
    by (simp add: generar_numero_cuenta_enough)
  with 0 show ?case
    by (subst generar_numero_cuenta_unico.simps) (simp add: cuenta_existe_iff)
next
  case (Suc k)
  then have g: "generar_numero_cuenta d = Some (sorteo (rng d) 0, d\<lparr>rng := drop 10 (rng d)\<rparr>)"
    by (simp add: generar_numero_cuenta_enough)
  show ?case
  proof (cases "sorteo (rng d) 0 \<in> set (numeros d)")
    case False
    with g show ?thesis
      by (subst generar_numero_cuenta_unico.simps) (simp add: cuenta_existe_iff)
  next
    case True
    have "\<exists>numero d'. generar_numero_cuenta_unico (d\<lparr>rng := drop 10 (rng d)\<rparr>) = Some (numero, d')"
      using Suc.prems by (intro Suc.IH) (simp_all add: sorteo_drop)
    with g True show ?thesis
      by (subst generar_numero_cuenta_unico.simps) (simp add: cuenta_existe_iff)
  qed
qed


section \<open>Opening an account\<close>

lemma max_id_ge: "(i, x) \<in> set xs \<Longrightarrow> i \<le> max_id xs"
  by (induction xs) auto

lemma max_id_fresh: "map_of xs (Suc (max_id xs)) = None"
proof (cases "map_of xs (Suc (max_id xs))")
  case (Some x)
  then have "(Suc (max_id xs), x) \<in> set xs" by (rule map_of_SomeD)
  then have "Suc (max_id xs) \<le> max_id xs" by (rule max_id_ge)
  then show ?thesis by simp
qed simp

lemma map_of_add: "map_of (xs @ [(Suc (max_id xs), x)]) (Suc (max_id xs)) = Some x"
  by (simp add: map_add_def max_id_fresh)

lemma create_eq:
  assumes "generar_numero_cuenta_unico d = Some (numero, d1)"
  shows "create d now cuenta =
           Some (Suc (max_id (cuentas d)),
                 d1\<lparr>cuentas := cuentas d @
                       [(Suc (max_id (cuentas d)),
                         cuenta\<lparr>c_numero_cuenta := numero, c_created_at := now,
                                c_updated_at := now, c_id := None\<rparr>)]\<rparr>)"
  using generar_numero_cuenta_unico_Some [OF assms]
  by (simp add: create_def assms add_def Let_def)

text \<open>
  The account document that \<open>crear_cuenta\<close> stores, and the store it leaves: one more
  account, and one more movement when the initial balance is positive.
\<close>

lemma crear_cuenta_eq:
  fixes d d1 :: db and now :: datetime and req :: CuentaCreate and numero :: string
  assumes g: "generar_numero_cuenta_unico d = Some (numero, d1)"
  defines "cid \<equiv> Suc (max_id (cuentas d))"
  defines "doc \<equiv> \<lparr>c_id = None, c_cliente_id = cc_cliente_id req, c_numero_cuenta = numero,
                    c_tipo = cc_tipo req, c_moneda = cc_moneda req,
                    c_saldo = cc_saldo_inicial req, c_estado = ACTIVA,
                    c_fecha_apertura = now, c_created_at = now, c_updated_at = now\<rparr>"
  defines "mov \<equiv> \<lparr>m_id = None, m_cuenta_id = cid, m_tipo = DEPOSITO,
                    m_monto = cc_saldo_inicial req, m_saldo_anterior = 0,
                    m_saldo_nuevo = cc_saldo_inicial req, m_descripcion = desc_apertura,
                    m_referencia = None, m_fecha = now, m_created_at = now\<rparr>"
  shows "crear_cuenta d now req =
           Some (Some (doc\<lparr>c_id := Some cid\<rparr>),
                 d1\<lparr>cuentas := cuentas d @ [(cid, doc)],
                    movimientos := (if 0 < cc_saldo_inicial req
                                    then movimientos d @ [(Suc (max_id (movimientos d)), mov)]
                                    else movimientos d)\<rparr>)"
proof -
  from generar_numero_cuenta_unico_Some [OF g]
  have same: "cuentas d1 = cuentas d" "movimientos d1 = movimientos d" by simp_all
  have d1: "d1\<lparr>movimientos := movimientos d\<rparr> = d1"
    using same(2) by simp
  show ?thesis
    unfolding crear_cuenta_def Let_def create_eq [OF g]
    by (simp add: get_by_id_def map_add_def max_id_fresh crear_movimiento_def add_def
          Let_def same d1 cid_def doc_def mov_def)
qed


text \<open>
  C7. When the tape holds a draw that is not a stored number (so that the number
  generation returns), opening an account with an initial balance of at least 0 returns
  the new account, stored under a new id, in state ACTIVA and with the requested
  balance. With a positive initial balance exactly one movement is added: a DEPOSITO of
  that amount for the new account, from 0 to the initial balance, with the opening
  description; with an initial balance of 0 no movement is added.
\<close>

theorem crear_cuenta_apertura:
  assumes "10 * Suc k \<le> length (rng d)" and "sorteo (rng d) k \<notin> set (numeros d)"
    and "0 \<le> cc_saldo_inicial req"
  shows "\<exists>cid c d'.
           crear_cuenta d now req = Some (Some c, d') \<and>
           c_id c = Some cid \<and> get_by_id d' cid = Some c \<and> get_by_id d cid = None \<and>
           c_estado c = ACTIVA \<and> c_saldo c = cc_saldo_inicial req \<and>
           c_cliente_id c = cc_cliente_id req \<and> c_tipo c = cc_tipo req \<and>
           c_moneda c = cc_moneda req \<and>
           (if 0 < cc_saldo_inicial req
            then \<exists>mid m. movimientos d' = movimientos d @ [(mid, m)] \<and>
                   m_cuenta_id m = cid \<and> m_tipo m = DEPOSITO \<and>
                   m_monto m = cc_saldo_inicial req \<and> m_saldo_anterior m = 0 \<and>
                   m_saldo_nuevo m = cc_saldo_inicial req \<and>
                   m_descripcion m = desc_apertura
            else movimientos d' = movimientos d)"
proof -
  from generar_numero_cuenta_unico_returns [OF assms(1,2)]
  obtain numero d1 where g: "generar_numero_cuenta_unico d = Some (numero, d1)"
    by blast
  show ?thesis
    unfolding crear_cuenta_eq [OF g]
    by (simp add: get_by_id_def map_add_def max_id_fresh)
qed

theorem crear_cuenta_apertura_witness:
  "10 * Suc 1 \<le> length (rng demo_sorteo) \<and>
   sorteo (rng demo_sorteo) 1 = ''9876543210'' \<and>
   numeros demo_sorteo = [''0123456789''] \<and>
   (\<exists>c d' mid m.
      crear_cuenta demo_sorteo 9 demo_apertura = Some (Some c, d') \<and>
      c_estado c = ACTIVA \<and> c_saldo c = 100 \<and>
      movimientos d' = [(mid, m)] \<and> m_tipo m = DEPOSITO \<and> m_monto m = 100 \<and>
      m_saldo_anterior m = 0 \<and> m_saldo_nuevo m = 100 \<and> m_descripcion m = desc_apertura) \<and>
   (\<exists>c d'.
      crear_cuenta demo_sorteo 9 (demo_apertura\<lparr>cc_saldo_inicial := 0\<rparr>) = Some (Some c, d') \<and>
      c_estado c = ACTIVA \<and> c_saldo c = 0 \<and> movimientos d' = [])"
proof -
  have len: "10 * Suc 1 \<le> length (rng demo_sorteo)"
    by (simp add: demo_sorteo_def)
  have draw: "sorteo (rng demo_sorteo) 1 = ''9876543210''"
    by (simp add: demo_sorteo_def sorteo_def string_digits_def)
  have nums: "numeros demo_sorteo = [''0123456789'']"
    by (simp add: demo_sorteo_def demo_db_def demo_cuenta_def numeros_def)
  have fresh: "sorteo (rng demo_sorteo) 1 \<notin> set (numeros demo_sorteo)"
    unfolding draw nums by simp
  have pos: "0 \<le> cc_saldo_inicial demo_apertura" "cc_saldo_inicial demo_apertura = 100"
    "movimientos demo_sorteo = []"
    by (simp_all add: demo_apertura_def demo_sorteo_def demo_db_def)
  have zero: "0 \<le> cc_saldo_inicial (demo_apertura\<lparr>cc_saldo_inicial := 0\<rparr>)"
    "cc_saldo_inicial (demo_apertura\<lparr>cc_saldo_inicial := 0\<rparr>) = 0"
    by simp_all
  from crear_cuenta_apertura [OF len fresh pos(1), of 9]
    crear_cuenta_apertura [OF len fresh zero(1), of 9]
  show ?thesis
    unfolding pos(2,3) zero(2) using len draw nums by simp blast
qed


section \<open>Uniqueness of account numbers\<close>

lemma crear_cuenta_numeros:
  assumes "crear_cuenta d now req = Some (res, d')"
  shows "\<exists>numero. numeros d' = numeros d @ [numero] \<and> numero \<notin> set (numeros d)"
proof -
  from assms obtain numero d1 where g: "generar_numero_cuenta_unico d = Some (numero, d1)"
    by (auto simp: crear_cuenta_def create_def Let_def split: option.splits)
  from generar_numero_cuenta_unico_Some [OF g]
  have fresh: "numero \<notin> set (numeros d)" by simp
  from assms have "numeros d' = numeros d @ [numero]"
    unfolding crear_cuenta_eq [OF g] by (auto simp: numeros_def)
  with fresh show ?thesis by blast
qed

lemma crear_cuentas_distinct:
  "crear_cuentas d reqs = Some d' \<Longrightarrow> distinct (numeros d) \<Longrightarrow> distinct (numeros d')"
proof (induction reqs arbitrary: d)
  case Nil
  then show ?case by simp
next
  case (Cons x reqs)
  obtain now req where x: "x = (now, req)" by (cases x)
  from Cons.prems(1) x obtain res d1 where
    step: "crear_cuenta d now req = Some (res, d1)" and rest: "crear_cuentas d1 reqs = Some d'"
    by (auto split: option.splits)
  from crear_cuenta_numeros [OF step] Cons.prems(2) have "distinct (numeros d1)"
    by auto
  with Cons.IH [OF rest] show ?case .
qed

text \<open>
  C9. Whenever the number generation returns, the number is a string of ten decimal
  digits that no stored account has; and a run of account creations that starts from
  pairwise different account numbers ends with pairwise different account numbers.
\<close>

theorem numero_de_cuenta_unico:
  "(generar_numero_cuenta_unico d = Some (numero, d1) \<longrightarrow>
      length numero = 10 \<and> set numero \<subseteq> set ''0123456789'' \<and>
      numero \<notin> set (numeros d)) \<and>
   (distinct (numeros d) \<and> crear_cuentas d reqs = Some d' \<longrightarrow> distinct (numeros d'))"
  using generar_numero_cuenta_unico_Some [of d numero d1] crear_cuentas_distinct [of d reqs d']
  by (simp add: string_digits_def)

lemmas sorteo_defs =
  generar_numero_cuenta_unico.simps generar_numero_cuenta_def random_choices_def
  cuenta_existe_def string_digits_def

theorem numero_de_cuenta_unico_witness:
  "\<exists>d1 d'.
     generar_numero_cuenta_unico demo_sorteo = Some (''9876543210'', d1) \<and>
     ''9876543210'' \<notin> set (numeros demo_sorteo) \<and>
     distinct (numeros demo_sorteo) \<and>
     crear_cuentas demo_sorteo [(9, demo_apertura)] = Some d' \<and>
     distinct (numeros d')"
proof -
  have g: "generar_numero_cuenta_unico demo_sorteo = Some (''9876543210'', demo_sorteo\<lparr>rng := []\<rparr>)"
    by (simp add: sorteo_defs demo_sorteo_def demo_db_def demo_cuenta_def)
  have dist: "distinct (numeros demo_sorteo)"
    by (simp add: numeros_def demo_sorteo_def demo_db_def)
  obtain d' where run: "crear_cuentas demo_sorteo [(9, demo_apertura)] = Some d'"
    by (simp add: crear_cuenta_eq [OF g])
  from numero_de_cuenta_unico
    [of demo_sorteo "''9876543210''" "demo_sorteo\<lparr>rng := []\<rparr>" "[(9, demo_apertura)]" d']
    g dist run
  show ?thesis by blast
qed

section \<open>Movement records\<close>

lemma creados_crear_cuenta:
  assumes "crear_cuenta d now req = Some (res, d')"
  shows "creados d d' = [] \<or>
         (\<exists>mid m. creados d d' = [(mid, m)] \<and> m_tipo m = DEPOSITO \<and>
            m_saldo_anterior m = 0 \<and> m_saldo_nuevo m = m_monto m)"
proof -
  from assms obtain numero d1 where g: "generar_numero_cuenta_unico d = Some (numero, d1)"
    by (auto simp: crear_cuenta_def create_def Let_def split: option.splits)
  from assms show ?thesis
    unfolding crear_cuenta_eq [OF g] by (auto simp: creados_def)
qed

text \<open>
  C2, as stated, fails on a kind override against the direction of the operation: a
  credit of 10 recorded as RETIRO has \<open>saldo_nuevo - saldo_anterior = +10\<close>, where the
  sign of RETIRO asks for -10.
\<close>

theorem movimiento_no_cuadra:
  "\<exists>res d'.
     acreditar_saldo demo_db 7 1 10 ''reverso'' RETIRO = (Inr res, d') \<and>
     map (\<lambda>(i, m). (m_tipo m, m_monto m, m_saldo_nuevo m - m_saldo_anterior m))
       (creados demo_db d') = [(RETIRO, 10, 10)] \<and>
     \<not> list_all (\<lambda>(i, m). movimiento_cuadra m) (creados demo_db d')"
  by (simp add: ejecucion_defs demo_db_def demo_cuenta_def)

text \<open>
  C2, amended. Every movement created by a deposit, a withdrawal, an account opening, a
  debit whose kind is RETIRO, TRANSFERENCIA_SALIDA or PAGO_SERVICIO, or a credit whose
  kind is DEPOSITO or TRANSFERENCIA_ENTRADA is settled: its \<open>saldo_nuevo\<close> is
  \<open>saldo_anterior + monto\<close> when its kind is DEPOSITO or TRANSFERENCIA_ENTRADA, and
  \<open>saldo_anterior - monto\<close> when its kind is RETIRO, TRANSFERENCIA_SALIDA or
  PAGO_SERVICIO. This is the one addition or subtraction that the operation performs.
\<close>

theorem movimientos_creados_cuadran:
  "(tipo_acorde op \<and> ejecutar d now op = (res, d') \<longrightarrow>
      list_all (\<lambda>(i, m). movimiento_asentado m) (creados d d')) \<and>
   (crear_cuenta d now req = Some (cuenta, d2) \<longrightarrow>
      list_all (\<lambda>(i, m). movimiento_asentado m) (creados d d2))"
proof (intro conjI impI)
  assume a: "tipo_acorde op \<and> ejecutar d now op = (res, d')"
  from ejecutar_efecto [of d now op] a
  show "list_all (\<lambda>(i, m). movimiento_asentado m) (creados d d')"
    by (auto simp: movimiento_asentado_def aplicar_movimiento_def)
next
  assume "crear_cuenta d now req = Some (cuenta, d2)"
  from creados_crear_cuenta [OF this]
  show "list_all (\<lambda>(i, m). movimiento_asentado m) (creados d d2)"
    by (auto simp: movimiento_asentado_def aplicar_movimiento_def es_entrada_def)
qed

theorem movimientos_creados_cuadran_witness:
  "\<exists>res d' cuenta d2.
     tipo_acorde (Descontar 1 15 ''pago de luz'' PAGO_SERVICIO) \<and>
     ejecutar demo_db 4 (Descontar 1 15 ''pago de luz'' PAGO_SERVICIO) = (Inr res, d') \<and>
     map (\<lambda>(i, m). (m_tipo m, m_monto m, m_saldo_anterior m, m_saldo_nuevo m))
       (creados demo_db d') = [(PAGO_SERVICIO, 15, 100, 85)] \<and>
     list_all (\<lambda>(i, m). movimiento_asentado m) (creados demo_db d') \<and>
     crear_cuenta demo_sorteo 9 demo_apertura = Some (cuenta, d2) \<and>
     map (\<lambda>(i, m). (m_tipo m, m_monto m, m_saldo_anterior m, m_saldo_nuevo m))
       (creados demo_sorteo d2) = [(DEPOSITO, 100, 0, 100)] \<and>
     list_all (\<lambda>(i, m). movimiento_asentado m) (creados demo_sorteo d2)"
proof -
  have ok: "tipo_acorde (Descontar 1 15 ''pago de luz'' PAGO_SERVICIO)"
    by (simp add: es_entrada_def)
  obtain res d' where
    run: "ejecutar demo_db 4 (Descontar 1 15 ''pago de luz'' PAGO_SERVICIO) = (Inr res, d')"
    and ms: "map (\<lambda>(i, m). (m_tipo m, m_monto m, m_saldo_anterior m, m_saldo_nuevo m))
       (creados demo_db d') = [(PAGO_SERVICIO, 15, 100, 85)]"
    by (simp add: ejecucion_defs demo_db_def demo_cuenta_def)
  have g: "generar_numero_cuenta_unico demo_sorteo =
             Some (''9876543210'', demo_sorteo\<lparr>rng := []\<rparr>)"
    by (simp add: sorteo_defs demo_sorteo_def demo_db_def demo_cuenta_def)
  obtain cuenta d2 where ap: "crear_cuenta demo_sorteo 9 demo_apertura = Some (cuenta, d2)"
    and ms2: "map (\<lambda>(i, m). (m_tipo m, m_monto m, m_saldo_anterior m, m_saldo_nuevo m))
       (creados demo_sorteo d2) = [(DEPOSITO, 100, 0, 100)]"
    using crear_cuenta_eq [OF g, where req = demo_apertura and now = 9]
    by (simp add: creados_def demo_apertura_def demo_sorteo_def demo_db_def)
  have c1: "list_all (\<lambda>(i, m). movimiento_asentado m) (creados demo_db d')"
    using movimientos_creados_cuadran
      [of "Descontar 1 15 ''pago de luz'' PAGO_SERVICIO" demo_db 4 "Inr res" d'] ok run
    by simp
  have c2: "list_all (\<lambda>(i, m). movimiento_asentado m) (creados demo_sorteo d2)"
    using movimientos_creados_cuadran [of _ demo_sorteo 9 _ _ demo_apertura cuenta d2] ap
    by simp
  from ok run ms c1 ap ms2 c2 show ?thesis
    by (intro exI [of _ res] exI [of _ d'] exI [of _ cuenta] exI [of _ d2] conjI)
qed

section \<open>Rounding to two decimals\<close>

lemma dos_decimales_iff: "dos_decimales x \<longleftrightarrow> (\<exists>n::int. x * 100 = of_int n)"
  by (simp add: dos_decimales_def)

lemma dos_decimales_py_round2: "dos_decimales (py_round2 v)"
  unfolding dos_decimales_iff py_round2_def Let_def by (intro exI) simp

text \<open>
  C6, as stated, fails: a debit stores the amount and the new balance as they come. A
  debit of 0.125 on the balance 100 records the amount 0.125 and stores the balance
  99.875, and neither has two decimals.
\<close>

theorem monto_sin_redondear:
  "\<exists>res d'.
     descontar_saldo demo_db 7 1 (1 / 8) ''comision'' RETIRO = (Inr res, d') \<and>
     map (\<lambda>(i, m). m_monto m) (creados demo_db d') = [1 / 8] \<and>
     saldo_de d' 1 = Some (799 / 8) \<and>
     \<not> dos_decimales (1 / 8) \<and> \<not> dos_decimales (799 / 8)"
proof -
  have "\<not> dos_decimales (1 / 8)" "\<not> dos_decimales (799 / 8)"
    by code_simp+
  then show ?thesis
    by (simp add: ejecucion_defs demo_db_def demo_cuenta_def)
qed

text \<open>
  C6, amended. The amount of a deposit or withdrawal request is rounded to two decimals
  when the request is validated. A deposit or withdrawal that succeeds on such a request
  records one movement whose amount is that rounded value, and stores as new balance the
  old balance plus (deposit) or minus (withdrawal) the rounded value, as computed.
\<close>

theorem monto_de_solicitud_redondeado:
  "(make_DepositoRequest v descripcion = Inr dep \<and> depositar d now cid dep = (Inr res, d') \<longrightarrow>
      (\<exists>c mid m. get_by_id d cid = Some c \<and> creados d d' = [(mid, m)] \<and>
         m_monto m = py_round2 v \<and> dos_decimales (m_monto m) \<and>
         saldo_de d' cid = Some (c_saldo c + py_round2 v))) \<and>
   (make_RetiroRequest v descripcion = Inr ret \<and> retirar d now cid ret = (Inr res, d') \<longrightarrow>
      (\<exists>c mid m. get_by_id d cid = Some c \<and> creados d d' = [(mid, m)] \<and>
         m_monto m = py_round2 v \<and> dos_decimales (m_monto m) \<and>
         saldo_de d' cid = Some (c_saldo c - py_round2 v)))"
proof (intro conjI impI)
  assume a: "make_DepositoRequest v descripcion = Inr dep \<and>
             depositar d now cid dep = (Inr res, d')"
  then have m: "dep_monto dep = py_round2 v"
    by (auto simp: make_DepositoRequest_def split: if_splits)
  from a obtain c where c: "get_by_id d cid = Some c"
    using sin_cuenta(1) [of d cid now dep] by (cases "get_by_id d cid") auto
  from a c have act: "c_estado c = ACTIVA"
    using no_activa(1) [OF c, of now dep] by auto
  from a show "\<exists>c mid m. get_by_id d cid = Some c \<and> creados d d' = [(mid, m)] \<and>
         m_monto m = py_round2 v \<and> dos_decimales (m_monto m) \<and>
         saldo_de d' cid = Some (c_saldo c + py_round2 v)"
    unfolding depositar_ok [OF c act]
    by (auto simp: c m creados_def movimientos_asentado saldo_de_def get_by_id_asentado
          dos_decimales_py_round2)
next
  assume a: "make_RetiroRequest v descripcion = Inr ret \<and>
             retirar d now cid ret = (Inr res, d')"
  then have m: "ret_monto ret = py_round2 v"
    by (auto simp: make_RetiroRequest_def split: if_splits)
  from a obtain c where c: "get_by_id d cid = Some c"
    using sin_cuenta(2) [of d cid now ret] by (cases "get_by_id d cid") auto
  from a c have act: "c_estado c = ACTIVA"
    using no_activa(2) [OF c, of now ret] by auto
  from a c act have le: "ret_monto ret \<le> c_saldo c"
    using saldo_insuficiente(1) [OF c act, of ret now] by (cases "ret_monto ret \<le> c_saldo c") auto
  from a show "\<exists>c mid m. get_by_id d cid = Some c \<and> creados d d' = [(mid, m)] \<and>
         m_monto m = py_round2 v \<and> dos_decimales (m_monto m) \<and>
         saldo_de d' cid = Some (c_saldo c - py_round2 v)"
    unfolding retirar_ok [OF c act le]
    by (auto simp: c m creados_def movimientos_asentado saldo_de_def get_by_id_asentado
          dos_decimales_py_round2)
qed


theorem monto_de_solicitud_redondeado_witness:
  "\<exists>dep res d' mid m ret res2 d2 mid2 m2.
     make_DepositoRequest (3 / 8) ''ventanilla'' = Inr dep \<and>
     depositar demo_db 1 1 dep = (Inr res, d') \<and>
     creados demo_db d' = [(mid, m)] \<and> m_monto m = 19 / 50 \<and> dos_decimales (m_monto m) \<and>
     saldo_de d' 1 = Some (100 + 19 / 50) \<and>
     make_RetiroRequest (1 / 8) ''cajero'' = Inr ret \<and>
     retirar demo_db 2 1 ret = (Inr res2, d2) \<and>
     creados demo_db d2 = [(mid2, m2)] \<and> m_monto m2 = 3 / 25 \<and> dos_decimales (m_monto m2) \<and>
     saldo_de d2 1 = Some (100 - 3 / 25)"
proof -
  have r1: "py_round2 (3 / 8) = 19 / 50" and r2: "py_round2 (1 / 8) = 3 / 25"
    by code_simp+
  have mk1: "make_DepositoRequest (3 / 8) ''ventanilla'' =
               Inr \<lparr>dep_monto = 19 / 50, dep_descripcion = ''ventanilla''\<rparr>"
    by (simp add: make_DepositoRequest_def r1)
  have mk2: "make_RetiroRequest (1 / 8) ''cajero'' =
               Inr \<lparr>ret_monto = 3 / 25, ret_descripcion = ''cajero''\<rparr>"
    by (simp add: make_RetiroRequest_def r2)
  obtain res d' where dp: "depositar demo_db 1 1 \<lparr>dep_monto = 19 / 50, dep_descripcion = ''ventanilla''\<rparr>
                             = (Inr res, d')"
    by (simp add: ejecucion_defs demo_db_def demo_cuenta_def)
  obtain res2 d2 where rt: "retirar demo_db 2 1 \<lparr>ret_monto = 3 / 25, ret_descripcion = ''cajero''\<rparr>
                             = (Inr res2, d2)"
    by (simp add: ejecucion_defs demo_db_def demo_cuenta_def)
  have c: "get_by_id demo_db 1 = Some (demo_cuenta\<lparr>c_id := Some 1\<rparr>)"
    "c_saldo (demo_cuenta\<lparr>c_id := Some 1\<rparr>) = 100"
    by (simp_all add: get_by_id_def demo_db_def demo_cuenta_def)
  have "\<exists>c mid m. get_by_id demo_db 1 = Some c \<and> creados demo_db d' = [(mid, m)] \<and>
          m_monto m = py_round2 (3 / 8) \<and> dos_decimales (m_monto m) \<and>
          saldo_de d' 1 = Some (c_saldo c + py_round2 (3 / 8))"
    using monto_de_solicitud_redondeado
      [of "3 / 8" "''ventanilla''" "\<lparr>dep_monto = 19 / 50, dep_descripcion = ''ventanilla''\<rparr>"
          demo_db 1 1 res d'] mk1 dp
    by blast
  then obtain mid m where w1: "creados demo_db d' = [(mid, m)]" "m_monto m = 19 / 50"
      "dos_decimales (m_monto m)" "saldo_de d' 1 = Some (100 + 19 / 50)"
    unfolding r1 c(1) using c(2) by auto
  have "\<exists>c mid m. get_by_id demo_db 1 = Some c \<and> creados demo_db d2 = [(mid, m)] \<and>
          m_monto m = py_round2 (1 / 8) \<and> dos_decimales (m_monto m) \<and>
          saldo_de d2 1 = Some (c_saldo c - py_round2 (1 / 8))"
    using monto_de_solicitud_redondeado
      [of "1 / 8" "''cajero''" _ demo_db 2 1 res2 d2
          "\<lparr>ret_monto = 3 / 25, ret_descripcion = ''cajero''\<rparr>"] mk2 rt
    by blast
  then obtain mid2 m2 where w2: "creados demo_db d2 = [(mid2, m2)]" "m_monto m2 = 3 / 25"
      "dos_decimales (m_monto m2)" "saldo_de d2 1 = Some (100 - 3 / 25)"
    unfolding r2 c(1) using c(2) by auto
  from mk1 dp w1 mk2 rt w2 show ?thesis
    by (intro exI conjI)
qed

end
